theory Spec2Isabelle
  imports Complex_Main
begin

section \<open>Python values, exceptions and the outside world\<close>

text \<open>
  The two programs of the repository are \<^verbatim>\<open>servers_setup/start_es_server.py\<close> (the
  bootstrap of Elasticsearch, its index and Kibana behind a FastAPI application) and
  \<^verbatim>\<open>servers_setup/verify_start_es_server.py\<close> (the verifier: it launches the bootstrap
  script, polls for readiness, runs the probes, writes and serves the report).
  Both are sequential Python with module-level globals, exceptions and calls to the
  outside world. The embedding threads the globals through every function as a record,
  returns a raised exception as \<open>Inl\<close>, and takes every answer of the outside world from
  an oracle record \<open>env\<close>, indexed by the number of effects performed so far; every
  effect is appended to a trace.
\<close>

datatype json =
    JNull
  | JBool bool
  | JNum int
  | JStr string
  | JArr "json list"
  | JObj "(string \<times> json) list"

datatype exn_class =
    ConnectionError
  | RequestException
  | JSONDecodeError
  | KeyError
  | TypeError
  | NameError
  | RuntimeError
  | Exception
  | OSError
  | FileNotFoundError
  | ProcessLookupError
  | TimeoutExpired
  | CalledProcessError
  | ApiError
  | ZeroDivisionError
  | KeyboardInterrupt

datatype signal = SIGTERM | SIGKILL

text \<open>What ends a computation without a value: a raised exception, or the death of the
  running program itself by a signal it has no handler for. Neither program installs a
  signal handler.\<close>

datatype exn = Raised exn_class string | Killed signal

fun str_exn :: "exn \<Rightarrow> string" where
  "str_exn (Raised c m) = m"
| "str_exn (Killed sig) = []"

text \<open>\<^verbatim>\<open>except Exception\<close> matches every class of the model but \<^verbatim>\<open>KeyboardInterrupt\<close>,
  which derives from \<^verbatim>\<open>BaseException\<close> only. A killed program runs no handler.\<close>

fun is_Exception :: "exn \<Rightarrow> bool" where
  "is_Exception (Raised c m) = (c \<noteq> KeyboardInterrupt)"
| "is_Exception (Killed sig) = False"

fun is_ConnectionError :: "exn \<Rightarrow> bool" where
  "is_ConnectionError (Raised c m) = (c = ConnectionError)"
| "is_ConnectionError (Killed sig) = False"

fun is_KeyboardInterrupt :: "exn \<Rightarrow> bool" where
  "is_KeyboardInterrupt (Raised c m) = (c = KeyboardInterrupt)"
| "is_KeyboardInterrupt (Killed sig) = False"

fun is_Killed :: "exn \<Rightarrow> bool" where
  "is_Killed (Killed sig) = True"
| "is_Killed (Raised c m) = False"

record response =
  status_code :: nat
  resp_text :: string
  resp_json :: "string + json"

datatype level = INFO | ERROR

datatype event =
    HttpGet string "(string \<times> json) list"
  | Sleep nat
  | Popen "string list"
  | Run "string list"
  | PathExists string
  | Getpgid nat
  | Killpg nat signal
  | Wait nat nat
  | Log level string
  | TimeRead
  | DatetimeNow
  | RandomChoices nat
  | Makedirs string
  | WriteFile string string
  | ReadFile string
  | ThreadStart
  | BrowserOpen string
  | Respond nat string
  | EsIndicesExists string
  | EsIndicesCreate string

text \<open>
  The oracle. \<open>http t url params\<close> is the outcome of \<^verbatim>\<open>requests.get(url, params)\<close> issued
  as effect number \<open>t\<close>: a response, or the exception it raises. \<open>format_f d x\<close> stands
  for Python's \<^verbatim>\<open>f"{x:.df}"\<close> and \<open>py_str\<close> for \<^verbatim>\<open>str\<close> of a parsed JSON value; both
  are library functions the programs only call. \<open>spawn\<close> gives the pid of a launched
  process or the error of the launch, \<open>exits_on_its_own pid\<close> the exit code of a launched
  process that ends by itself before anyone looks at it, \<open>exits_on_sigterm pid\<close> the exit
  code with which a running process \<open>pid\<close> ends within the wait that follows a
  \<^verbatim>\<open>SIGTERM\<close>, if it does. \<open>fs_error t path\<close> is the error with which the file system
  refuses an operation on \<open>path\<close>, \<open>run_cmd t args\<close> the exception that
  \<^verbatim>\<open>subprocess.run(args, check=True)\<close> raises, if any.
\<close>

record env =
  http :: "nat \<Rightarrow> string \<Rightarrow> (string \<times> json) list \<Rightarrow> exn + response"
  clock :: "nat \<Rightarrow> rat"
  now_str :: "nat \<Rightarrow> string"
  random_choices :: "nat \<Rightarrow> nat \<Rightarrow> string"
  format_f :: "nat \<Rightarrow> rat \<Rightarrow> string"
  py_str :: "json \<Rightarrow> string"
  sys_executable :: string
  spawn :: "nat \<Rightarrow> string list \<Rightarrow> exn + nat"
  own_pgid :: nat
  exits_on_its_own :: "nat \<Rightarrow> int option"
  exits_on_sigterm :: "nat \<Rightarrow> int option"
  fs_error :: "nat \<Rightarrow> string \<Rightarrow> exn option"
  path_exists :: "nat \<Rightarrow> string \<Rightarrow> bool"
  run_cmd :: "nat \<Rightarrow> string list \<Rightarrow> exn option"
  es_indices_exists :: "nat \<Rightarrow> string \<Rightarrow> exn + bool"
  es_indices_create :: "nat \<Rightarrow> string \<Rightarrow> exn + unit"

datatype pstatus = Running | Exited int

record proc =
  pgid :: nat
  status :: pstatus

text \<open>What both programs share: the trace of effects and the table of the processes
  they launched (a process leaves the table when it is reaped).\<close>

record sys =
  trace :: "event list"
  proc_table :: "(nat \<times> proc) list"

type_synonym ('s, 'a) py = "'s \<Rightarrow> (exn + 'a) \<times> 's"

definition ret :: "'a \<Rightarrow> ('s, 'a) py" where
  "ret x s = (Inr x, s)"

definition raise :: "exn_class \<Rightarrow> string \<Rightarrow> ('s, 'a) py" where
  "raise c m s = (Inl (Raised c m), s)"

definition reraise :: "exn \<Rightarrow> ('s, 'a) py" where
  "reraise e s = (Inl e, s)"

definition seq :: "('s, 'a) py \<Rightarrow> ('a \<Rightarrow> ('s, 'b) py) \<Rightarrow> ('s, 'b) py" where
  "seq m f s = (case m s of (Inl e, s') \<Rightarrow> (Inl e, s') | (Inr x, s') \<Rightarrow> f x s')"

text \<open>\<^verbatim>\<open>try: m  except ...: h\<close>; the handler re-raises what no clause matches. Nothing
  runs in a killed program.\<close>

definition try_except :: "('s, 'a) py \<Rightarrow> (exn \<Rightarrow> ('s, 'a) py) \<Rightarrow> ('s, 'a) py" where
  "try_except m h s =
     (case m s of
        (Inl e, s') \<Rightarrow> if is_Killed e then (Inl e, s') else h e s'
      | (Inr x, s') \<Rightarrow> (Inr x, s'))"

text \<open>\<^verbatim>\<open>try: m  finally: fin\<close>; an exception of \<open>fin\<close> replaces the outcome of \<open>m\<close>.\<close>

definition try_finally :: "('s, 'a) py \<Rightarrow> ('s, unit) py \<Rightarrow> ('s, 'a) py" where
  "try_finally m fin s =
     (case m s of
        (Inl e, s') \<Rightarrow>
          if is_Killed e then (Inl e, s')
          else (case fin s' of (Inl e', s'') \<Rightarrow> (Inl e', s'') | (Inr u, s'') \<Rightarrow> (Inl e, s''))
      | (Inr x, s') \<Rightarrow>
          (case fin s' of (Inl e', s'') \<Rightarrow> (Inl e', s'') | (Inr u, s'') \<Rightarrow> (Inr x, s'')))"

definition tick :: "'a sys_scheme \<Rightarrow> nat" where
  "tick s = length (trace s)"

definition emit :: "event \<Rightarrow> 'a sys_scheme \<Rightarrow> 'a sys_scheme" where
  "emit e s = s\<lparr>trace := trace s @ [e]\<rparr>"

definition requests_get ::
  "env \<Rightarrow> string \<Rightarrow> (string \<times> json) list \<Rightarrow> ('a sys_scheme, response) py" where
  "requests_get env url params s = (http env (tick s) url params, emit (HttpGet url params) s)"

definition time_sleep :: "nat \<Rightarrow> ('a sys_scheme, unit) py" where
  "time_sleep n s = (Inr (), emit (Sleep n) s)"

definition logger_info :: "string \<Rightarrow> ('a sys_scheme, unit) py" where
  "logger_info msg s = (Inr (), emit (Log INFO msg) s)"

definition logger_error :: "string \<Rightarrow> ('a sys_scheme, unit) py" where
  "logger_error msg s = (Inr (), emit (Log ERROR msg) s)"

definition time_time :: "env \<Rightarrow> ('a sys_scheme, rat) py" where
  "time_time env s = (Inr (clock env (tick s)), emit TimeRead s)"

definition datetime_now :: "env \<Rightarrow> ('a sys_scheme, string) py" where
  "datetime_now env s = (Inr (now_str env (tick s)), emit DatetimeNow s)"

text \<open>\<^verbatim>\<open>subprocess.Popen(args)\<close> without \<^verbatim>\<open>start_new_session\<close>: the child stays in the
  process group of its parent, the running program.\<close>

record popen =
  popen_args :: "string list"
  pid :: nat
  returncode :: "int option"

definition subprocess_Popen :: "env \<Rightarrow> string list \<Rightarrow> ('a sys_scheme, popen) py" where
  "subprocess_Popen env args s =
     (case spawn env (tick s) args of
        Inl e \<Rightarrow> (Inl e, emit (Popen args) s)
      | Inr p \<Rightarrow>
          (Inr \<lparr>popen_args = args, pid = p, returncode = None\<rparr>,
           emit (Popen args)
             (s\<lparr>proc_table :=
                  (p, \<lparr>pgid = own_pgid env,
                       status = (case exits_on_its_own env p of
                                   None \<Rightarrow> Running | Some rc \<Rightarrow> Exited rc)\<rparr>)
                  # proc_table s\<rparr>)))"

subsection \<open>Rendering and reading values\<close>

definition nl :: string where
  "nl = [CHR 0x0A]"

definition digit_char :: "nat \<Rightarrow> char" where
  "digit_char d = ''0123456789'' ! d"

function str_nat :: "nat \<Rightarrow> string" where
  "str_nat n =
     (if n < 10 then [digit_char n] else str_nat (n div 10) @ [digit_char (n mod 10)])"
  by pat_completeness auto
termination
  by (relation "measure id") auto

declare str_nat.simps [simp del]

definition str_int :: "int \<Rightarrow> string" where
  "str_int i = (if i < 0 then ''-'' @ str_nat (nat (- i)) else str_nat (nat i))"

text \<open>Python's \<^verbatim>\<open>repr\<close> of a string and \<^verbatim>\<open>str\<close> of a list of strings, for strings of
  printable characters without quote or backslash, which is all the programs render.\<close>

definition py_repr_str :: "string \<Rightarrow> string" where
  "py_repr_str x = [CHR 0x27] @ x @ [CHR 0x27]"

fun comma_separated :: "string list \<Rightarrow> string" where
  "comma_separated [] = []"
| "comma_separated [x] = x"
| "comma_separated (x # y # ys) = x @ '', '' @ comma_separated (y # ys)"

definition py_str_list :: "string list \<Rightarrow> string" where
  "py_str_list xs = ''['' @ comma_separated (map py_repr_str xs) @ '']''"

fun truthy :: "json \<Rightarrow> bool" where
  "truthy JNull = False"
| "truthy (JBool b) = b"
| "truthy (JNum n) = (n \<noteq> 0)"
| "truthy (JStr s) = (s \<noteq> [])"
| "truthy (JArr xs) = (xs \<noteq> [])"
| "truthy (JObj kvs) = (kvs \<noteq> [])"

text \<open>\<^verbatim>\<open>v == i\<close> for an integer \<open>i\<close>: Python's \<^verbatim>\<open>False == 0\<close> and \<^verbatim>\<open>True == 1\<close> hold.\<close>

fun eq_int :: "json \<Rightarrow> int \<Rightarrow> bool" where
  "eq_int (JNum n) i = (n = i)"
| "eq_int (JBool b) i = ((if b then 1 else 0) = i)"
| "eq_int v i = False"

text \<open>\<^verbatim>\<open>v[key]\<close> for a string key, with the messages of CPython 3.11 and later.\<close>

definition not_subscriptable :: "string \<Rightarrow> string" where
  "not_subscriptable tp = py_repr_str tp @ '' object is not subscriptable''"

definition getitem :: "json \<Rightarrow> string \<Rightarrow> ('s, json) py" where
  "getitem v key =
     (case v of
        JObj kvs \<Rightarrow>
          (case map_of kvs key of
             Some x \<Rightarrow> ret x
           | None \<Rightarrow> raise KeyError (py_repr_str key))
      | JArr xs \<Rightarrow> raise TypeError ''list indices must be integers or slices, not str''
      | JStr x \<Rightarrow>
          raise TypeError (''string indices must be integers, not '' @ py_repr_str ''str'')
      | JNum n \<Rightarrow> raise TypeError (not_subscriptable ''int'')
      | JBool b \<Rightarrow> raise TypeError (not_subscriptable ''bool'')
      | JNull \<Rightarrow> raise TypeError (not_subscriptable ''NoneType''))"

definition response_json :: "response \<Rightarrow> ('s, json) py" where
  "response_json r = (case resp_json r of Inl m \<Rightarrow> raise JSONDecodeError m | Inr v \<Rightarrow> ret v)"

section \<open>The verifier: \<^verbatim>\<open>verify_start_es_server.py\<close>\<close>

definition ES_SERVER_PORT :: nat where
  "ES_SERVER_PORT = 9200"

definition FASTAPI_PORT :: nat where
  "FASTAPI_PORT = 8000"

definition REPORT_PORT :: nat where
  "REPORT_PORT = 8011"

definition ES_SERVER_SCRIPT :: string where
  "ES_SERVER_SCRIPT = ''servers_setup/start_es_server.py''"

definition REPORT_DIR :: string where
  "REPORT_DIR = ''verification_reports''"

definition REPORT_FILE :: string where
  "REPORT_FILE = REPORT_DIR @ ''/verification_report.html''"

text \<open>The names the module binds to constants; no other module-level constant exists.
  Reading a name that is neither here nor a function or import of the module raises
  \<^verbatim>\<open>NameError\<close>.\<close>

definition module_constants :: "(string \<times> json) list" where
  "module_constants =
     [(''ES_SERVER_PORT'', JNum 9200),
      (''FASTAPI_PORT'', JNum 8000),
      (''REPORT_PORT'', JNum 8011),
      (''ES_SERVER_SCRIPT'', JStr ES_SERVER_SCRIPT),
      (''REPORT_DIR'', JStr REPORT_DIR),
      (''REPORT_FILE'', JStr REPORT_FILE)]"

definition load_global :: "string \<Rightarrow> ('s, json) py" where
  "load_global nm =
     (case map_of module_constants nm of
        Some v \<Rightarrow> ret v
      | None \<Rightarrow> raise NameError (''name '' @ py_repr_str nm @ '' is not defined''))"

record test_result =
  name :: string
  success :: bool
  message :: string
  duration :: string
  timestamp :: string

text \<open>The globals of the module, over the shared part.\<close>

record world = sys +
  es_server_process :: "popen option"
  test_results :: "test_result list"
  report_generated :: bool
  files :: "string \<Rightarrow> string option"

definition generate_random_string :: "env \<Rightarrow> nat \<Rightarrow> (world, string) py" where
  "generate_random_string env n s = (Inr (random_choices env (tick s) n), emit (RandomChoices n) s)"

subsection \<open>Launching and stopping the server script\<close>

definition start_es_server_attempt :: "env \<Rightarrow> (world, bool) py" where
  "start_es_server_attempt env =
     seq (requests_get env (''http://localhost:'' @ str_nat ES_SERVER_PORT) []) (\<lambda>es_response.
       if status_code es_response = 200 then
         seq (requests_get env (''http://localhost:'' @ str_nat FASTAPI_PORT @ ''/docs'') [])
           (\<lambda>api_response.
              if status_code api_response = 200 then
                seq (logger_info ''Elasticsearch and FastAPI servers started successfully'')
                  (\<lambda>u. ret True)
              else ret False)
       else ret False)"

text \<open>The \<^verbatim>\<open>for i in range(max_retries)\<close> loop with \<open>n\<close> iterations left. \<open>True\<close> is the
  \<^verbatim>\<open>return True\<close> inside the loop, \<open>False\<close> is the loop running out.\<close>

fun start_es_server_loop :: "env \<Rightarrow> nat \<Rightarrow> (world, bool) py" where
  "start_es_server_loop env 0 s = ret False s"
| "start_es_server_loop env (Suc n) s =
     seq (try_except (start_es_server_attempt env)
            (\<lambda>e. if is_ConnectionError e then ret False else reraise e))
       (\<lambda>returned.
          if returned then ret True
          else seq (time_sleep 1) (\<lambda>u. start_es_server_loop env n)) s"

definition start_es_server :: "env \<Rightarrow> (world, bool) py" where
  "start_es_server env =
     seq (subprocess_Popen env [sys_executable env, ES_SERVER_SCRIPT]) (\<lambda>p.
     seq (\<lambda>s. (Inr (), s\<lparr>es_server_process := Some p\<rparr>)) (\<lambda>u.
     seq (start_es_server_loop env 30) (\<lambda>returned.
       if returned then ret True
       else seq (logger_error ''Failed to start Elasticsearch or FastAPI server'')
              (\<lambda>u. ret False))))"

definition os_getpgid :: "nat \<Rightarrow> ('a sys_scheme, nat) py" where
  "os_getpgid p s =
     (case map_of (proc_table s) p of
        None \<Rightarrow> raise ProcessLookupError ''[Errno 3] No such process'' (emit (Getpgid p) s)
      | Some pr \<Rightarrow> ret (pgid pr) (emit (Getpgid p) s))"

definition deliver :: "env \<Rightarrow> nat \<Rightarrow> signal \<Rightarrow> nat \<times> proc \<Rightarrow> nat \<times> proc" where
  "deliver env g sig e =
     (case e of (p, pr) \<Rightarrow>
        if pgid pr = g \<and> status pr = Running then
          (case sig of
             SIGKILL \<Rightarrow> (p, pr\<lparr>status := Exited (- 9)\<rparr>)
           | SIGTERM \<Rightarrow>
               (case exits_on_sigterm env p of
                  Some rc \<Rightarrow> (p, pr\<lparr>status := Exited rc\<rparr>)
                | None \<Rightarrow> (p, pr)))
        else (p, pr))"

text \<open>\<^verbatim>\<open>os.killpg(g, sig)\<close> signals every member of the group. The running program is a
  member of its own group and handles neither signal: signalling that group kills it
  inside the call.\<close>

definition os_killpg :: "env \<Rightarrow> nat \<Rightarrow> signal \<Rightarrow> ('a sys_scheme, unit) py" where
  "os_killpg env g sig s =
     (if g = own_pgid env then
        (Inl (Killed sig),
         emit (Killpg g sig) (s\<lparr>proc_table := map (deliver env g sig) (proc_table s)\<rparr>))
      else if list_ex (\<lambda>e. pgid (snd e) = g) (proc_table s) then
        ret () (emit (Killpg g sig) (s\<lparr>proc_table := map (deliver env g sig) (proc_table s)\<rparr>))
      else raise ProcessLookupError ''[Errno 3] No such process'' (emit (Killpg g sig) s))"

text \<open>\<^verbatim>\<open>Popen.wait(timeout)\<close>: an exit status already collected is returned at once; an
  exited child is reaped; a child that is gone counts as exited with status 0, as
  CPython does on \<^verbatim>\<open>ECHILD\<close>; a child still running raises \<^verbatim>\<open>TimeoutExpired\<close>. The
  handle comes back with its \<^verbatim>\<open>returncode\<close> attribute updated.\<close>

definition popen_wait :: "popen \<Rightarrow> nat \<Rightarrow> ('a sys_scheme, popen) py" where
  "popen_wait h timeout s =
     (case returncode h of
        Some rc \<Rightarrow> ret h s
      | None \<Rightarrow>
          (case map_of (proc_table s) (pid h) of
             None \<Rightarrow> ret (h\<lparr>returncode := Some 0\<rparr>) (emit (Wait (pid h) timeout) s)
           | Some pr \<Rightarrow>
               (case status pr of
                  Exited rc \<Rightarrow>
                    ret (h\<lparr>returncode := Some rc\<rparr>)
                      (emit (Wait (pid h) timeout)
                         (s\<lparr>proc_table := filter (\<lambda>e. fst e \<noteq> pid h) (proc_table s)\<rparr>))
                | Running \<Rightarrow>
                    raise TimeoutExpired
                      (''Command '' @ [CHR 0x27] @ py_str_list (popen_args h) @ [CHR 0x27]
                         @ '' timed out after '' @ str_nat timeout @ '' seconds'')
                      (emit (Wait (pid h) timeout) s))))"

text \<open>A \<^verbatim>\<open>Popen\<close> object is always truthy, so \<^verbatim>\<open>if es_server_process:\<close> only tests for
  \<^verbatim>\<open>None\<close>. The global is never reset.\<close>

definition stop_es_server :: "env \<Rightarrow> (world, unit) py" where
  "stop_es_server env s =
     (case es_server_process s of
        None \<Rightarrow> ret () s
      | Some h \<Rightarrow>
          seq (os_getpgid (pid h)) (\<lambda>g.
          seq (os_killpg env g SIGTERM) (\<lambda>u.
          seq (popen_wait h 5) (\<lambda>h'.
          seq (\<lambda>s. (Inr (), s\<lparr>es_server_process := Some h'\<rparr>)) (\<lambda>u.
            logger_info ''Elasticsearch server stopped'')))) s)"

subsection \<open>The test runner and the probes\<close>

definition run_test :: "env \<Rightarrow> string \<Rightarrow> (world, json) py \<Rightarrow> (world, bool) py" where
  "run_test env test_name test_func =
     seq (time_time env) (\<lambda>start_time.
     seq (try_except
            (seq test_func (\<lambda>result. ret (True, ''Test passed'')))
            (\<lambda>e. if is_Exception e then ret (False, ''Test failed: '' @ str_exn e)
                  else reraise e)) (\<lambda>(success', message').
     seq (time_time env) (\<lambda>end_time.
     seq (datetime_now env) (\<lambda>now.
     seq (\<lambda>s. (Inr (), s\<lparr>test_results := test_results s @
                  [\<lparr>name = test_name, success = success', message = message',
                    duration = format_f env 2 (end_time - start_time) @ ''s'',
                    timestamp = now\<rparr>]\<rparr>)) (\<lambda>u.
     seq (logger_info (''Test '' @ [CHR 0x27] @ test_name @ [CHR 0x27] @ '': ''
            @ (if success' then ''PASSED'' else ''FAILED'') @ '' - '' @ message')) (\<lambda>u.
     ret success'))))))"

definition test_elasticsearch_connection :: "env \<Rightarrow> (world, json) py" where
  "test_elasticsearch_connection env =
     seq (requests_get env (''http://localhost:'' @ str_nat ES_SERVER_PORT) []) (\<lambda>response.
       if status_code response \<noteq> 200 then
         raise Exception
           (''Elasticsearch server returned status code '' @ str_nat (status_code response))
       else ret (JBool True))"

definition test_store_data :: "env \<Rightarrow> (world, json) py" where
  \<open>test_store_data env =
     seq (generate_random_string env 10) (\<lambda>r1.
     seq (generate_random_string env 5) (\<lambda>r2.
     seq (requests_get env (''http://localhost:'' @ str_nat FASTAPI_PORT @ ''/storedata'')
            [(''text'', JStr (''Test data: '' @ r1)),
             (''auid'', JStr (''test_'' @ r2)),
             (''additional_args'', JStr ''{"test_key": "test_value"}'')]) (\<lambda>response.
       if status_code response \<noteq> 200 then
         raise Exception (''Failed to store data: '' @ resp_text response)
       else
         seq (response_json response) (\<lambda>result.
         seq (getitem result ''status'') (\<lambda>st.
           if st \<noteq> JStr ''success'' then
             raise Exception (''Store data returned error: '' @ py_str env result)
           else getitem result ''document_id'')))))\<close>

definition test_get_data :: "env \<Rightarrow> json \<Rightarrow> (world, json) py" where
  "test_get_data env auid =
     seq (requests_get env (''http://localhost:'' @ str_nat FASTAPI_PORT @ ''/getdata'')
            [(''auid'', auid)]) (\<lambda>response.
       if status_code response \<noteq> 200 then
         raise Exception (''Failed to get data: '' @ resp_text response)
       else
         seq (response_json response) (\<lambda>result.
         seq (getitem result ''status'') (\<lambda>st.
           if st \<noteq> JStr ''success'' then
             raise Exception (''Get data returned error: '' @ py_str env result)
           else
             seq (getitem result ''count'') (\<lambda>c.
               if eq_int c 0 then
                 raise Exception (''No documents found for auid: '' @ py_str env auid)
               else getitem result ''documents''))))"

definition test_invalid_auid :: "env \<Rightarrow> (world, json) py" where
  "test_invalid_auid env =
     seq (requests_get env (''http://localhost:'' @ str_nat FASTAPI_PORT @ ''/getdata'')
            [(''auid'', JStr ''nonexistent_auid'')]) (\<lambda>response.
       if status_code response \<noteq> 200 then
         raise Exception (''Failed to get data: '' @ resp_text response)
       else
         seq (response_json response) (\<lambda>result.
         seq (getitem result ''count'') (\<lambda>c.
           if \<not> eq_int c 0 then
             raise Exception
               (''Expected 0 documents for nonexistent auid, got '' @ py_str env c)
           else ret (JBool True))))"

subsection \<open>The report\<close>

record summary =
  total_tests :: int
  passed_tests :: int
  failed_tests :: int
  success_rate :: rat

text \<open>Python's \<^verbatim>\<open>a / b\<close> on integers: it raises \<^verbatim>\<open>ZeroDivisionError\<close> when \<open>b\<close> is 0. The
  quotient is a float in Python and exact here.\<close>

definition truediv :: "int \<Rightarrow> int \<Rightarrow> exn + rat" where
  "truediv a b =
     (if b = 0 then Inl (Raised ZeroDivisionError ''division by zero'')
      else Inr (of_int a / of_int b))"

text \<open>The summary statistics of \<^verbatim>\<open>generate_html_report\<close>, lines 191 to 194.\<close>

definition summary_statistics :: "test_result list \<Rightarrow> exn + summary" where
  "summary_statistics results =
     (let total = int (length results);
          passed = int (length (filter success results));
          failed = total - passed
      in case (if total > 0 then
                 (case truediv passed total of Inl e \<Rightarrow> Inl e | Inr q \<Rightarrow> Inr (q * 100))
               else Inr 0) of
           Inl e \<Rightarrow> Inl e
         | Inr rate \<Rightarrow>
             Inr \<lparr>total_tests = total, passed_tests = passed, failed_tests = failed,
                  success_rate = rate\<rparr>)"

definition html_head :: "env \<Rightarrow> string \<Rightarrow> summary \<Rightarrow> string" where
  \<open>html_head env generated_on st = concat
     [nl,
      ''    <!DOCTYPE html>'', nl,
      ''    <html>'', nl,
      ''    <head>'', nl,
      ''        <title>Elasticsearch Server Verification Report</title>'', nl,
      ''        <style>'', nl,
      ''            body { font-family: Arial, sans-serif; margin: 20px; }'', nl,
      ''            h1, h2 { color: #333; }'', nl,
      ''            .summary { background-color: #f5f5f5; padding: 15px; border-radius: 5px; margin-bottom: 20px; }'', nl,
      ''            .summary-item { margin: 5px 0; }'', nl,
      ''            .test-results { border-collapse: collapse; width: 100%; }'', nl,
      ''            .test-results th, .test-results td { border: 1px solid #ddd; padding: 8px; text-align: left; }'', nl,
      ''            .test-results th { background-color: #f2f2f2; }'', nl,
      ''            .test-results tr:nth-child(even) { background-color: #f9f9f9; }'', nl,
      ''            .pass { color: green; }'', nl,
      ''            .fail { color: red; }'', nl,
      ''            .timestamp { color: #666; font-size: 0.9em; }'', nl,
      ''        </style>'', nl,
      ''    </head>'', nl,
      ''    <body>'', nl,
      ''        <h1>Elasticsearch Server Verification Report</h1>'', nl,
      ''        <div class="timestamp">Generated on: '', generated_on, ''</div>'', nl,
      ''        '', nl,
      ''        <div class="summary">'', nl,
      ''            <h2>Summary</h2>'', nl,
      ''            <div class="summary-item">Total Tests: '', str_int (total_tests st), ''</div>'', nl,
      ''            <div class="summary-item">Passed: <span class="pass">'', str_int (passed_tests st), ''</span></div>'', nl,
      ''            <div class="summary-item">Failed: <span class="fail">'', str_int (failed_tests st), ''</span></div>'', nl,
      ''            <div class="summary-item">Success Rate: '', format_f env 1 (success_rate st), ''%</div>'', nl,
      ''        </div>'', nl,
      ''        '', nl,
      ''        <h2>Test Results</h2>'', nl,
      ''        <table class="test-results">'', nl,
      ''            <tr>'', nl,
      ''                <th>Test Name</th>'', nl,
      ''                <th>Status</th>'', nl,
      ''                <th>Message</th>'', nl,
      ''                <th>Duration</th>'', nl,
      ''                <th>Timestamp</th>'', nl,
      ''            </tr>'', nl,
      ''    '']\<close>

definition html_row :: "test_result \<Rightarrow> string" where
  \<open>html_row result = concat
     [nl,
      ''            <tr>'', nl,
      ''                <td>'', name result, ''</td>'', nl,
      ''                <td class="'', (if success result then ''pass'' else ''fail''), ''">'', (if success result then ''PASS'' else ''FAIL''), ''</td>'', nl,
      ''                <td>'', message result, ''</td>'', nl,
      ''                <td>'', duration result, ''</td>'', nl,
      ''                <td>'', timestamp result, ''</td>'', nl,
      ''            </tr>'', nl,
      ''        '']\<close>

definition html_tail :: string where
  \<open>html_tail = concat
     [nl,
      ''        </table>'', nl,
      ''    </body>'', nl,
      ''    </html>'', nl,
      ''    '']\<close>

definition html_content :: "env \<Rightarrow> string \<Rightarrow> summary \<Rightarrow> test_result list \<Rightarrow> string" where
  "html_content env generated_on st results =
     html_head env generated_on st @ concat (map html_row results) @ html_tail"

text \<open>\<^verbatim>\<open>os.makedirs(path, exist_ok=True)\<close> and the two \<^verbatim>\<open>open\<close> of the report file: each
  fails when the file system refuses it.\<close>

definition os_makedirs :: "env \<Rightarrow> string \<Rightarrow> ('a sys_scheme, unit) py" where
  "os_makedirs env path s =
     (case fs_error env (tick s) path of
        Some e \<Rightarrow> (Inl e, emit (Makedirs path) s)
      | None \<Rightarrow> (Inr (), emit (Makedirs path) s))"

definition write_file :: "env \<Rightarrow> string \<Rightarrow> string \<Rightarrow> (world, unit) py" where
  "write_file env path content s =
     (case fs_error env (tick s) path of
        Some e \<Rightarrow> (Inl e, emit (WriteFile path content) s)
      | None \<Rightarrow>
          (Inr (), emit (WriteFile path content) (s\<lparr>files := (files s)(path \<mapsto> content)\<rparr>)))"

definition read_file :: "env \<Rightarrow> string \<Rightarrow> (world, string) py" where
  "read_file env path s =
     (case fs_error env (tick s) path of
        Some e \<Rightarrow> (Inl e, emit (ReadFile path) s)
      | None \<Rightarrow>
          (case files s path of
             None \<Rightarrow>
               raise FileNotFoundError
                 (''[Errno 2] No such file or directory: '' @ py_repr_str path)
                 (emit (ReadFile path) s)
           | Some content \<Rightarrow> ret content (emit (ReadFile path) s)))"

definition generate_html_report :: "env \<Rightarrow> (world, string) py" where
  "generate_html_report env =
     seq (os_makedirs env REPORT_DIR) (\<lambda>u.
     seq (\<lambda>s. (Inr (test_results s), s)) (\<lambda>results.
     seq (\<lambda>s. (summary_statistics results, s)) (\<lambda>st.
     seq (datetime_now env) (\<lambda>generated_on.
     seq (write_file env REPORT_FILE (html_content env generated_on st results)) (\<lambda>u.
     seq (logger_info (''HTML report generated: '' @ REPORT_FILE)) (\<lambda>u.
     ret REPORT_FILE))))))"

text \<open>The endpoint \<^verbatim>\<open>GET /\<close> of the report application; the value is the body served.\<close>

definition get_report :: "env \<Rightarrow> (world, string) py" where
  "get_report env =
     seq (\<lambda>s. (Inr (report_generated s), s)) (\<lambda>generated.
     seq (if \<not> generated then
            seq (generate_html_report env) (\<lambda>report_path.
              (\<lambda>s. (Inr (), s\<lparr>report_generated := True\<rparr>)))
          else ret ()) (\<lambda>u.
     read_file env REPORT_FILE))"

subsection \<open>The verification run\<close>

text \<open>Lines 301 to 309: the lookup of the stored document. \<^verbatim>\<open>ES_INDEX\<close> is read while the
  URL is built, before any request is made.\<close>

definition extract_auid :: "env \<Rightarrow> json \<Rightarrow> (world, json) py" where
  "extract_auid env doc_id =
     try_except
       (seq (load_global ''ES_INDEX'') (\<lambda>es_index.
        seq (requests_get env
               (''http://localhost:'' @ str_nat ES_SERVER_PORT @ ''/'' @ py_str env es_index
                  @ ''/_doc/'' @ py_str env doc_id) []) (\<lambda>response.
          if status_code response = 200 then
            seq (response_json response) (\<lambda>doc.
            seq (getitem doc ''_source'') (\<lambda>source.
              getitem source ''auid''))
          else ret JNull)))
       (\<lambda>e. if is_Exception e then
               seq (logger_error (''Error extracting auid: '' @ str_exn e)) (\<lambda>u. ret JNull)
             else reraise e)"

text \<open>Lines 294 to 315: the probes, in order.\<close>

definition run_probes :: "env \<Rightarrow> (world, unit) py" where
  "run_probes env =
     seq (run_test env ''Elasticsearch Connection'' (test_elasticsearch_connection env)) (\<lambda>u.
     seq (run_test env ''Store Data'' (test_store_data env)) (\<lambda>doc_id.
     seq (if doc_id then
            seq (extract_auid env (JBool doc_id)) (\<lambda>auid.
              if truthy auid then
                seq (run_test env ''Get Data'' (test_get_data env auid)) (\<lambda>u. ret ())
              else ret ())
          else ret ()) (\<lambda>u.
     seq (run_test env ''Invalid AUID'' (test_invalid_auid env)) (\<lambda>u. ret ()))))"

text \<open>The report thread and the final \<^verbatim>\<open>while True: time.sleep(1)\<close>. The loop only ends
  with the user's interrupt; \<open>visits\<close> is the number of requests the report endpoint
  serves before that, one per round of the loop. An error of the endpoint stays in
  the report thread, which answers with status 500.\<close>

fun serve_forever :: "env \<Rightarrow> nat \<Rightarrow> (world, unit) py" where
  "serve_forever env 0 s = raise KeyboardInterrupt [] s"
| "serve_forever env (Suc n) s =
     seq (time_sleep 1) (\<lambda>u.
     seq (try_except
            (seq (get_report env) (\<lambda>body. (\<lambda>s. (Inr (), emit (Respond 200 body) s))))
            (\<lambda>e. (\<lambda>s. (Inr (), emit (Respond 500 ''Internal Server Error'') s)))) (\<lambda>u.
       serve_forever env n)) s"

definition run_verification_try :: "env \<Rightarrow> nat \<Rightarrow> (world, json) py" where
  "run_verification_try env visits =
     seq (start_es_server env) (\<lambda>started.
       if \<not> started then
         seq (logger_error ''Failed to start Elasticsearch server'') (\<lambda>u. ret (JBool False))
       else
         seq (run_probes env) (\<lambda>u.
         seq (generate_html_report env) (\<lambda>report_path.
         seq (\<lambda>s. (Inr (), emit ThreadStart s)) (\<lambda>u.
         seq (\<lambda>s. (Inr (), emit (BrowserOpen (''http://localhost:'' @ str_nat REPORT_PORT)) s))
           (\<lambda>u.
         seq (logger_info (''Verification complete. Report available at http://localhost:''
                @ str_nat REPORT_PORT)) (\<lambda>u.
         seq (serve_forever env visits) (\<lambda>u. ret JNull)))))))"

definition run_verification :: "env \<Rightarrow> nat \<Rightarrow> (world, json) py" where
  "run_verification env visits =
     try_finally
       (try_except (run_verification_try env visits)
          (\<lambda>e. if is_KeyboardInterrupt e then
                  seq (logger_info ''Verification interrupted by user'') (\<lambda>u. ret JNull)
                else if is_Exception e then
                  seq (logger_error (''Verification failed: '' @ str_exn e)) (\<lambda>u. ret JNull)
                else reraise e))
       (stop_es_server env)"

section \<open>The bootstrap: \<^verbatim>\<open>start_es_server.py\<close>\<close>

definition ES_PORT :: nat where
  "ES_PORT = 9200"

definition ES_INDEX :: string where
  "ES_INDEX = ''documentation_data''"

definition ES_DOWNLOAD_URL :: string where
  "ES_DOWNLOAD_URL = ''https://artifacts.elastic.co/downloads/elasticsearch/''
     @ ''elasticsearch-8.12.1-linux-x86_64.tar.gz''"

definition ES_DIR :: string where
  "ES_DIR = ''elasticsearch-8.12.1''"

definition KIBANA_PORT :: nat where
  "KIBANA_PORT = 5601"

definition KIBANA_DOWNLOAD_URL :: string where
  "KIBANA_DOWNLOAD_URL = ''https://artifacts.elastic.co/downloads/kibana/''
     @ ''kibana-8.12.1-linux-x86_64.tar.gz''"

definition KIBANA_DIR :: string where
  "KIBANA_DIR = ''kibana-8.12.1''"

record server = sys +
  es_client :: "string option"

definition os_path_exists :: "env \<Rightarrow> string \<Rightarrow> ('a sys_scheme, bool) py" where
  "os_path_exists env path s = (Inr (path_exists env (tick s) path), emit (PathExists path) s)"

text \<open>\<^verbatim>\<open>subprocess.run(args, check=True)\<close>.\<close>

definition subprocess_run :: "env \<Rightarrow> string list \<Rightarrow> ('a sys_scheme, unit) py" where
  "subprocess_run env args s =
     (case run_cmd env (tick s) args of
        Some e \<Rightarrow> (Inl e, emit (Run args) s)
      | None \<Rightarrow> ret () (emit (Run args) s))"

definition download_elasticsearch :: "env \<Rightarrow> (server, unit) py" where
  "download_elasticsearch env =
     seq (os_path_exists env ES_DIR) (\<lambda>present.
       if \<not> present then
         seq (logger_info (''Downloading Elasticsearch from '' @ ES_DOWNLOAD_URL)) (\<lambda>u.
         seq (subprocess_run env [''wget'', ES_DOWNLOAD_URL]) (\<lambda>u.
         seq (subprocess_run env [''tar'', ''-xzf'', ''elasticsearch-8.12.1-linux-x86_64.tar.gz''])
           (\<lambda>u.
         logger_info ''Elasticsearch downloaded and configured'')))
       else ret ())"

text \<open>One readiness probe of \<^verbatim>\<open>start_elasticsearch\<close> and \<^verbatim>\<open>start_kibana\<close>, which are written
  alike: \<open>True\<close> is the \<^verbatim>\<open>return\<close> after status 200; a \<^verbatim>\<open>ConnectionError\<close> is passed over,
  any other exception leaves the function.\<close>

definition probe_200 :: "env \<Rightarrow> string \<Rightarrow> string \<Rightarrow> (server, bool) py" where
  "probe_200 env url msg =
     try_except
       (seq (requests_get env url []) (\<lambda>response.
          if status_code response = 200 then seq (logger_info msg) (\<lambda>u. ret True)
          else ret False))
       (\<lambda>e. if is_ConnectionError e then ret False else reraise e)"

text \<open>The \<^verbatim>\<open>for i in range(max_retries)\<close> loop of both functions, \<open>n\<close> iterations left.\<close>

fun wait_until_200 :: "env \<Rightarrow> string \<Rightarrow> string \<Rightarrow> nat \<Rightarrow> (server, bool) py" where
  "wait_until_200 env url msg 0 s = ret False s"
| "wait_until_200 env url msg (Suc n) s =
     seq (probe_200 env url msg) (\<lambda>returned.
       if returned then ret True
       else seq (time_sleep 1) (\<lambda>u. wait_until_200 env url msg n)) s"

definition start_elasticsearch :: "env \<Rightarrow> (server, unit) py" where
  "start_elasticsearch env =
     seq (os_path_exists env ES_DIR) (\<lambda>present.
     seq (if \<not> present then download_elasticsearch env else ret ()) (\<lambda>u.
     seq (probe_200 env (''http://localhost:'' @ str_nat ES_PORT)
            ''Elasticsearch is already running'') (\<lambda>running.
       if running then ret ()
       else
         seq (logger_info ''Starting Elasticsearch server...'') (\<lambda>u.
         seq (subprocess_Popen env [ES_DIR @ ''/bin/elasticsearch'']) (\<lambda>p.
         seq (wait_until_200 env (''http://localhost:'' @ str_nat ES_PORT)
                ''Elasticsearch server started successfully'' 30) (\<lambda>returned.
           if returned then ret ()
           else
             seq (logger_error ''Failed to start Elasticsearch server'') (\<lambda>u.
             raise RuntimeError ''Elasticsearch server failed to start'')))))))"

definition setup_elasticsearch_index :: "env \<Rightarrow> (server, unit) py" where
  "setup_elasticsearch_index env =
     seq (\<lambda>s. (Inr (), s\<lparr>es_client := Some (''https://localhost:'' @ str_nat ES_PORT)\<rparr>)) (\<lambda>u.
     seq (\<lambda>s. (es_indices_exists env (tick s) ES_INDEX, emit (EsIndicesExists ES_INDEX) s))
       (\<lambda>present.
       if \<not> present then
         seq (\<lambda>s. (es_indices_create env (tick s) ES_INDEX, emit (EsIndicesCreate ES_INDEX) s))
           (\<lambda>u.
         logger_info (''Created Elasticsearch index: '' @ ES_INDEX))
       else ret ()))"

definition download_kibana :: "env \<Rightarrow> (server, unit) py" where
  "download_kibana env =
     seq (os_path_exists env KIBANA_DIR) (\<lambda>present.
       if \<not> present then
         seq (logger_info (''Downloading Kibana from '' @ KIBANA_DOWNLOAD_URL)) (\<lambda>u.
         seq (subprocess_run env [''wget'', KIBANA_DOWNLOAD_URL]) (\<lambda>u.
         seq (subprocess_run env [''tar'', ''-xzf'', ''kibana-8.12.1-linux-x86_64.tar.gz'']) (\<lambda>u.
         logger_info ''Kibana downloaded and extracted'')))
       else ret ())"

definition start_kibana :: "env \<Rightarrow> (server, unit) py" where
  "start_kibana env =
     seq (os_path_exists env KIBANA_DIR) (\<lambda>present.
     seq (if \<not> present then download_kibana env else ret ()) (\<lambda>u.
     seq (probe_200 env (''http://localhost:'' @ str_nat KIBANA_PORT)
            ''Kibana is already running'') (\<lambda>running.
       if running then ret ()
       else
         seq (logger_info ''Starting Kibana server...'') (\<lambda>u.
         seq (subprocess_Popen env [KIBANA_DIR @ ''/bin/kibana'']) (\<lambda>p.
         seq (wait_until_200 env (''http://localhost:'' @ str_nat KIBANA_PORT)
                ''Kibana server started successfully'' 60) (\<lambda>returned.
           if returned then ret ()
           else
             seq (logger_error ''Failed to start Kibana server'') (\<lambda>u.
             raise RuntimeError ''Kibana server failed to start'')))))))"

definition startup_event :: "env \<Rightarrow> (server, unit) py" where
  "startup_event env =
     seq (start_elasticsearch env) (\<lambda>u.
     seq (setup_elasticsearch_index env) (\<lambda>u.
       start_kibana env))"

section \<open>Scenarios\<close>

text \<open>Stand-ins for the library functions of the oracle. \<open>format_fixed\<close> renders with \<open>d\<close>
  decimals, rounding the exact value half to even: this is Python's rendering of every
  value that is a binary fraction (the integers among them) and of every value that is
  not a decimal tie. \<open>str_json\<close> is Python's \<^verbatim>\<open>str\<close> of a parsed JSON value whose strings
  are printable without quote or backslash.\<close>

definition pad_left :: "nat \<Rightarrow> string \<Rightarrow> string" where
  "pad_left d xs = replicate (d - length xs) CHR ''0'' @ xs"

definition round_half_even :: "rat \<Rightarrow> int" where
  "round_half_even y =
     (let f = \<lfloor>y\<rfloor>; r = y - of_int f
      in if r < 1 / 2 then f else if 1 / 2 < r then f + 1 else if even f then f else f + 1)"

definition format_fixed :: "nat \<Rightarrow> rat \<Rightarrow> string" where
  "format_fixed d x =
     (let n = nat (round_half_even (\<bar>x\<bar> * 10 ^ d))
      in (if x < 0 then ''-'' else []) @ str_nat (n div 10 ^ d)
         @ (if d = 0 then [] else ''.'' @ pad_left d (str_nat (n mod 10 ^ d))))"

fun repr_json :: "json \<Rightarrow> string"
  and repr_items :: "json list \<Rightarrow> string list"
  and repr_pairs :: "(string \<times> json) list \<Rightarrow> string list" where
  "repr_json (JStr x) = py_repr_str x"
| "repr_json (JNum n) = str_int n"
| "repr_json (JBool b) = (if b then ''True'' else ''False'')"
| "repr_json JNull = ''None''"
| "repr_json (JArr xs) = ''['' @ comma_separated (repr_items xs) @ '']''"
| "repr_json (JObj kvs) = ''{'' @ comma_separated (repr_pairs kvs) @ ''}''"
| "repr_items [] = []"
| "repr_items (x # xs) = repr_json x # repr_items xs"
| "repr_pairs [] = []"
| "repr_pairs ((k, v) # kvs) = (py_repr_str k @ '': '' @ repr_json v) # repr_pairs kvs"

definition str_json :: "json \<Rightarrow> string" where
  "str_json v = (case v of JStr x \<Rightarrow> x | _ \<Rightarrow> repr_json v)"

text \<open>The scenario in which every service answers and every operation succeeds: the
  store endpoint returns the identifier \<open>X\<close>, a lookup by a stored identifier finds one
  record, the lookup of \<^verbatim>\<open>nonexistent_auid\<close> finds none, and the search engine knows
  the stored document.\<close>

definition json_response :: "string \<Rightarrow> json \<Rightarrow> response" where
  "json_response txt v = \<lparr>status_code = 200, resp_text = txt, resp_json = Inr v\<rparr>"

definition scenario_http :: "nat \<Rightarrow> string \<Rightarrow> (string \<times> json) list \<Rightarrow> exn + response" where
  \<open>scenario_http t url params =
     (if url = ''http://localhost:8000/storedata'' then
        Inr (json_response ''{"status": "success", "document_id": "X"}''
          (JObj [(''status'', JStr ''success''), (''message'', JStr ''Data stored successfully''),
                 (''document_id'', JStr ''X'')]))
      else if url = ''http://localhost:8000/getdata'' then
        (if params = [(''auid'', JStr ''nonexistent_auid'')] then
           Inr (json_response ''{"status": "success", "count": 0, "documents": []}''
             (JObj [(''status'', JStr ''success''), (''count'', JNum 0), (''documents'', JArr [])]))
         else
           Inr (json_response ''{"status": "success", "count": 1, "documents": [{}]}''
             (JObj [(''status'', JStr ''success''), (''count'', JNum 1),
                    (''documents'', JArr [JObj [(''document_id'', JStr ''X'')]])])))
      else
        Inr (json_response ''{"_source": {"auid": "test_aaaaa"}}''
          (JObj [(''_source'', JObj [(''auid'', JStr ''test_aaaaa'')])])))\<close>

definition scenario_now :: "nat \<Rightarrow> string" where
  "scenario_now t = ''2025-01-01 00:'' @ pad_left 2 (str_nat (t div 60 mod 60)) @ '':''
     @ pad_left 2 (str_nat (t mod 60))"

definition scenario_env :: env where
  "scenario_env =
     \<lparr>http = scenario_http, clock = (\<lambda>t. of_nat t), now_str = scenario_now,
      random_choices = (\<lambda>t n. replicate n CHR ''a''), format_f = format_fixed,
      py_str = str_json, sys_executable = ''/usr/bin/python3'',
      spawn = (\<lambda>t args. Inr 4242), own_pgid = 4000, exits_on_its_own = (\<lambda>p. None),
      exits_on_sigterm = (\<lambda>p. Some (- 15)), fs_error = (\<lambda>t p. None),
      path_exists = (\<lambda>t p. True), run_cmd = (\<lambda>t args. None),
      es_indices_exists = (\<lambda>t i. Inr True), es_indices_create = (\<lambda>t i. Inr ())\<rparr>"

definition w_init :: world where
  "w_init = \<lparr>trace = [], proc_table = [], es_server_process = None, test_results = [],
     report_generated = False, files = Map.empty\<rparr>"

definition s_init :: server where
  "s_init = \<lparr>trace = [], proc_table = [], es_client = None\<rparr>"

text \<open>Nothing listens: every request is refused.\<close>

definition env_down :: env where
  "env_down = scenario_env\<lparr>http := (\<lambda>t url params. Inl (Raised ConnectionError ''Connection refused''))\<rparr>"



text \<open>The store endpoint fails with status 500, everything else answers as before.\<close>

definition env_store_down :: env where
  "env_store_down = scenario_env\<lparr>http := (\<lambda>t url params.
     if url = ''http://localhost:8000/storedata'' then
       Inr \<lparr>status_code = 500, resp_text = ''Internal Server Error'',
            resp_json = Inl ''Expecting value: line 1 column 1 (char 0)''\<rparr>
     else scenario_http t url params)\<rparr>"


definition passed_result :: test_result where
  "passed_result = \<lparr>name = ''Elasticsearch Connection'', success = True,
     message = ''Test passed'', duration = ''0.01s'', timestamp = ''2025-01-01 00:00:07''\<rparr>"

section \<open>Notions used in the statements\<close>

text \<open>The events a run added to the trace.\<close>

definition new_events :: "'a sys_scheme \<Rightarrow> 'b sys_scheme \<Rightarrow> event list" where
  "new_events s s' = drop (length (trace s)) (trace s')"

fun is_HttpGet :: "event \<Rightarrow> bool" where
  "is_HttpGet (HttpGet url params) = True"
| "is_HttpGet e = False"

fun is_Sleep :: "event \<Rightarrow> bool" where
  "is_Sleep (Sleep n) = True"
| "is_Sleep e = False"


fun is_report_event :: "event \<Rightarrow> bool" where
  "is_report_event (WriteFile path content) = True"
| "is_report_event (Respond code body) = True"
| "is_report_event e = False"

text \<open>The state in which \<^verbatim>\<open>start_es_server\<close> enters its loop: the script runs as process
  \<open>p\<close> and its handle is stored in the global.\<close>

definition launched :: "env \<Rightarrow> nat \<Rightarrow> world \<Rightarrow> world" where
  "launched env p s =
     (emit (Popen [sys_executable env, ES_SERVER_SCRIPT])
        (s\<lparr>proc_table :=
             (p, \<lparr>pgid = own_pgid env,
                  status = (case exits_on_its_own env p of
                              None \<Rightarrow> Running | Some rc \<Rightarrow> Exited rc)\<rparr>) # proc_table s\<rparr>))
      \<lparr>es_server_process :=
         Some \<lparr>popen_args = [sys_executable env, ES_SERVER_SCRIPT], pid = p, returncode = None\<rparr>\<rparr>"

text \<open>The number of requests to \<open>url\<close> among the events.\<close>

definition requests_to :: "string \<Rightarrow> event list \<Rightarrow> nat" where
  "requests_to url evs = length (filter (\<lambda>e. e = HttpGet url []) evs)"

text \<open>What a readiness probe can see: the success signal is a response with status 200;
  a refused connection or any other status is "not yet".\<close>

definition is_200 :: "exn + response \<Rightarrow> bool" where
  "is_200 x = (case x of Inl e \<Rightarrow> False | Inr r \<Rightarrow> status_code r = 200)"

definition not_yet :: "exn + response \<Rightarrow> bool" where
  "not_yet x = (case x of Inl e \<Rightarrow> is_ConnectionError e | Inr r \<Rightarrow> status_code r \<noteq> 200)"

text \<open>No request to \<open>url\<close> ever observes the success signal.\<close>

definition never_ready :: "env \<Rightarrow> string \<Rightarrow> bool" where
  "never_ready env url = (\<forall>t. not_yet (http env t url []))"

text \<open>No attempt of the verifier ever observes the success signal: whenever it starts,
  the search engine is not ready, or it is and the API, asked next, is not.\<close>

definition never_both_ready :: "env \<Rightarrow> bool" where
  "never_both_ready env =
     (\<forall>t. not_yet (http env t (''http://localhost:'' @ str_nat ES_SERVER_PORT) [])
        \<or> (is_200 (http env t (''http://localhost:'' @ str_nat ES_SERVER_PORT) [])
            \<and> not_yet (http env (Suc t) (''http://localhost:'' @ str_nat FASTAPI_PORT @ ''/docs'') [])))"

text \<open>A request raises nothing but subclasses of \<^verbatim>\<open>Exception\<close>.\<close>

definition http_raises_only_Exception :: "env \<Rightarrow> bool" where
  "http_raises_only_Exception env = (\<forall>t u p e. http env t u p = Inl e \<longrightarrow> is_Exception e)"

definition raises_only_Exception :: "('s, 'a) py \<Rightarrow> bool" where
  "raises_only_Exception m = (\<forall>s e. fst (m s) = Inl e \<longrightarrow> is_Exception e)"

definition preserves :: "('s \<Rightarrow> bool) \<Rightarrow> ('s, 'a) py \<Rightarrow> bool" where
  "preserves P m = (\<forall>s. P s \<longrightarrow> P (snd (m s)))"


section \<open>Basic facts\<close>

lemmas py_defs = seq_def ret_def raise_def reraise_def try_except_def try_finally_def

lemmas effect_defs = requests_get_def time_sleep_def logger_info_def logger_error_def
  time_time_def datetime_now_def emit_def tick_def

lemma str_nat_ports:
  "str_nat ES_SERVER_PORT = ''9200''" "str_nat FASTAPI_PORT = ''8000''"
  "str_nat REPORT_PORT = ''8011''" "str_nat ES_PORT = ''9200''" "str_nat KIBANA_PORT = ''5601''"
  by (simp_all add: ES_SERVER_PORT_def FASTAPI_PORT_def REPORT_PORT_def ES_PORT_def
      KIBANA_PORT_def str_nat.simps digit_char_def)

subsection \<open>Invariants of a computation\<close>

lemma killed_excl:
  "is_Killed e \<Longrightarrow> is_Exception e \<Longrightarrow> False"
  "is_Killed e \<Longrightarrow> is_ConnectionError e \<Longrightarrow> False"
  "is_Killed e \<Longrightarrow> is_KeyboardInterrupt e \<Longrightarrow> False"
  by (cases e; simp)+

lemma preserves_seq: "preserves P m \<Longrightarrow> (\<And>x. preserves P (f x)) \<Longrightarrow> preserves P (seq m f)"
  by (auto simp: preserves_def seq_def split: prod.splits sum.splits)

lemma preserves_try_except:
  "preserves P m \<Longrightarrow> (\<And>e. preserves P (h e)) \<Longrightarrow> preserves P (try_except m h)"
  by (auto simp: preserves_def try_except_def split: prod.splits sum.splits)

lemma preserves_try_finally:
  "preserves P m \<Longrightarrow> preserves P fin \<Longrightarrow> preserves P (try_finally m fin)"
  by (auto simp: preserves_def try_finally_def split: prod.splits sum.splits)

lemma preserves_ret: "preserves P (ret x)"
  by (simp add: preserves_def ret_def)

lemma preserves_raise: "preserves P (raise c m)"
  by (simp add: preserves_def raise_def)

lemma preserves_reraise: "preserves P (reraise e)"
  by (simp add: preserves_def reraise_def)

lemma preserves_if:
  "(c \<Longrightarrow> preserves P a) \<Longrightarrow> (\<not> c \<Longrightarrow> preserves P b) \<Longrightarrow> preserves P (if c then a else b)"
  by simp

lemma preserves_emits:
  assumes "\<And>e s. P s \<Longrightarrow> P (emit e s)"
  shows "preserves P (requests_get env url ps)" "preserves P (time_sleep n)"
    "preserves P (logger_info msg)" "preserves P (logger_error msg)"
    "preserves P (time_time env)" "preserves P (datetime_now env)"
    "preserves P (os_makedirs env d)" "preserves P (os_path_exists env d)"
  using assms
  by (simp_all add: preserves_def requests_get_def time_sleep_def logger_info_def
      logger_error_def time_time_def datetime_now_def os_makedirs_def os_path_exists_def
      split: option.splits)

lemmas preserves_intros = preserves_seq preserves_try_except preserves_try_finally
  preserves_ret preserves_raise preserves_reraise preserves_if

lemma test_results_emit [simp]: "test_results (emit e s) = test_results s"
  by (simp add: emit_def)

lemma keep_results_getitem: "preserves P (getitem v k)"
  by (simp add: getitem_def preserves_ret preserves_raise split: json.splits option.splits)

lemma keep_response_json: "preserves P (response_json r)"
  by (simp add: response_json_def preserves_ret preserves_raise split: sum.splits)

lemma keep_random: "(\<And>e s. P s \<Longrightarrow> P (emit e s)) \<Longrightarrow> preserves P (generate_random_string env n)"
  by (simp add: preserves_def generate_random_string_def)

lemmas probe_intros = preserves_intros preserves_emits keep_results_getitem keep_response_json keep_random

lemma keep_conn: "(\<And>e s. P s \<Longrightarrow> P (emit e s)) \<Longrightarrow> preserves P (test_elasticsearch_connection env)"
  unfolding test_elasticsearch_connection_def by (intro probe_intros) 

lemma keep_store: "(\<And>e s. P s \<Longrightarrow> P (emit e s)) \<Longrightarrow> preserves P (test_store_data env)"
  unfolding test_store_data_def by (intro probe_intros)

lemma keep_get: "(\<And>e s. P s \<Longrightarrow> P (emit e s)) \<Longrightarrow> preserves P (test_get_data env a)"
  unfolding test_get_data_def by (intro probe_intros)

lemma keep_invalid: "(\<And>e s. P s \<Longrightarrow> P (emit e s)) \<Longrightarrow> preserves P (test_invalid_auid env)"
  unfolding test_invalid_auid_def by (intro probe_intros)


subsection \<open>The test runner\<close>

lemma roe_seq: "raises_only_Exception m \<Longrightarrow> (\<And>x. raises_only_Exception (f x)) \<Longrightarrow> raises_only_Exception (seq m f)"
  by (auto simp: raises_only_Exception_def seq_def split: prod.splits sum.splits) (metis fst_conv)+

lemma roe_ret: "raises_only_Exception (ret x)"
  by (simp add: raises_only_Exception_def ret_def)

lemma roe_raise: "c \<noteq> KeyboardInterrupt \<Longrightarrow> raises_only_Exception (raise c m)"
  by (simp add: raises_only_Exception_def raise_def)

lemma roe_if:
  "(c \<Longrightarrow> raises_only_Exception a) \<Longrightarrow> (\<not> c \<Longrightarrow> raises_only_Exception b) \<Longrightarrow> raises_only_Exception (if c then a else b)"
  by simp

lemma roe_get: "http_raises_only_Exception env \<Longrightarrow> raises_only_Exception (requests_get env u p)"
  by (simp add: raises_only_Exception_def requests_get_def http_raises_only_Exception_def)

lemma roe_getitem: "raises_only_Exception (getitem v k)"
  by (simp add: getitem_def roe_ret roe_raise split: json.splits option.splits)

lemma roe_response_json: "raises_only_Exception (response_json r)"
  by (simp add: response_json_def roe_ret roe_raise split: sum.splits)

lemma roe_random: "raises_only_Exception (generate_random_string env n)"
  by (simp add: raises_only_Exception_def generate_random_string_def)

lemmas roe_intros = roe_seq roe_ret roe_raise roe_if roe_get roe_getitem roe_response_json roe_random

lemma roe_conn: "http_raises_only_Exception env \<Longrightarrow> raises_only_Exception (test_elasticsearch_connection env)"
  unfolding test_elasticsearch_connection_def by (intro roe_intros) simp_all

lemma roe_store: "http_raises_only_Exception env \<Longrightarrow> raises_only_Exception (test_store_data env)"
  unfolding test_store_data_def by (intro roe_intros) simp_all

lemma roe_get_data: "http_raises_only_Exception env \<Longrightarrow> raises_only_Exception (test_get_data env a)"
  unfolding test_get_data_def by (intro roe_intros) simp_all

lemma roe_invalid: "http_raises_only_Exception env \<Longrightarrow> raises_only_Exception (test_invalid_auid env)"
  unfolding test_invalid_auid_def by (intro roe_intros) simp_all

lemma run_test_outcome:
  "fst (run_test env nm f s) =
     (case fst (f (snd (time_time env s))) of
        Inr v \<Rightarrow> Inr True
      | Inl e \<Rightarrow> if is_Exception e then Inr False else Inl e)"
  by (auto simp: run_test_def py_defs effect_defs split: prod.splits sum.splits
      dest: killed_excl)

lemma run_test_results:
  "test_results (snd (run_test env nm f s)) =
     test_results (snd (f (snd (time_time env s)))) @
     (case fst (f (snd (time_time env s))) of
        Inr v \<Rightarrow> [\<lparr>name = nm, success = True, message = ''Test passed'',
                   duration = format_f env 2 (clock env (tick (snd (f (snd (time_time env s))))) - clock env (tick s)) @ ''s'',
                   timestamp = now_str env (Suc (tick (snd (f (snd (time_time env s))))))\<rparr>]
      | Inl e \<Rightarrow> if is_Exception e then
                  [\<lparr>name = nm, success = False, message = ''Test failed: '' @ str_exn e,
                   duration = format_f env 2 (clock env (tick (snd (f (snd (time_time env s))))) - clock env (tick s)) @ ''s'',
                   timestamp = now_str env (Suc (tick (snd (f (snd (time_time env s))))))\<rparr>]
                else [])"
  by (auto simp: run_test_def py_defs effect_defs split: prod.splits sum.splits
      dest: killed_excl)

text \<open>A probe that leaves the results alone and raises only subclasses of \<^verbatim>\<open>Exception\<close>:
  the runner returns and appends one result.\<close>

lemma run_test_one:
  assumes "\<And>rs. preserves (\<lambda>s. test_results s = rs) f" "raises_only_Exception f"
  shows "\<exists>b r. fst (run_test env nm f s) = Inr b \<and>
           test_results (snd (run_test env nm f s)) = test_results s @ [r] \<and> name r = nm
           \<and> success r = b \<and> b = (\<not> isl (fst (f (snd (time_time env s)))))"
proof -
  let ?s1 = "snd (time_time env s)"
  have k: "test_results (snd (f ?s1)) = test_results s"
    using assms(1)[of "test_results s"] by (simp add: preserves_def time_time_def)
  show ?thesis
  proof (cases "fst (f ?s1)")
    case (Inl e)
    then have "is_Exception e" using assms(2) by (auto simp: raises_only_Exception_def)
    with Inl k show ?thesis by (auto simp: run_test_outcome run_test_results)
  next
    case (Inr v)
    with k show ?thesis by (auto simp: run_test_outcome run_test_results)
  qed
qed

lemma load_ES_INDEX:
  "load_global ''ES_INDEX'' s =
     raise NameError (''name '' @ [CHR 0x27] @ ''ES_INDEX'' @ [CHR 0x27] @ '' is not defined'') s"
  by (simp add: load_global_def module_constants_def py_repr_str_def)

lemma extract_auid_eq:
  "extract_auid env d s =
     (Inr JNull, emit (Log ERROR (''Error extracting auid: name '' @ [CHR 0x27] @ ''ES_INDEX'' @ [CHR 0x27] @ '' is not defined'')) s)"
  by (simp add: extract_auid_def load_ES_INDEX py_defs  logger_error_def fun_eq_iff)

lemma emit_keeps: "test_results s = rs \<Longrightarrow> test_results (emit e s) = rs"
  by simp

lemma run_probes_eq:
  "run_probes env s =
     (case run_test env ''Elasticsearch Connection'' (test_elasticsearch_connection env) s of
        (Inl e, s1) \<Rightarrow> (Inl e, s1)
      | (Inr b1, s1) \<Rightarrow>
          (case run_test env ''Store Data'' (test_store_data env) s1 of
             (Inl e, s2) \<Rightarrow> (Inl e, s2)
           | (Inr b2, s2) \<Rightarrow>
               (case run_test env ''Invalid AUID'' (test_invalid_auid env)
                  (if b2 then emit (Log ERROR (''Error extracting auid: name '' @ [CHR 0x27] @ ''ES_INDEX'' @ [CHR 0x27] @ '' is not defined'')) s2 else s2) of
                  (Inl e, s3) \<Rightarrow> (Inl e, s3)
                | (Inr b3, s3) \<Rightarrow> (Inr (), s3))))"
  by (simp add: run_probes_def seq_def extract_auid_eq ret_def split: prod.splits sum.splits)

lemma run_probes_shape:
  assumes h: "http_raises_only_Exception env"
  shows "\<exists>r1 r2 r3. fst (run_probes env s) = Inr () \<and>
     test_results (snd (run_probes env s)) = test_results s @ [r1, r2, r3] \<and>
     name r1 = ''Elasticsearch Connection'' \<and> name r2 = ''Store Data'' \<and> name r3 = ''Invalid AUID''"
proof -
  have one: "\<And>s. \<exists>b r. run_test env ''Elasticsearch Connection'' (test_elasticsearch_connection env) s = (Inr b, snd (run_test env ''Elasticsearch Connection'' (test_elasticsearch_connection env) s))
      \<and> test_results (snd (run_test env ''Elasticsearch Connection'' (test_elasticsearch_connection env) s)) = test_results s @ [r] \<and> name r = ''Elasticsearch Connection''"
    using run_test_one[OF keep_conn roe_conn[OF h], where env=env and nm="''Elasticsearch Connection''"]
    by (simp add: prod_eq_iff) blast
  have two: "\<And>s. \<exists>b r. run_test env ''Store Data'' (test_store_data env) s = (Inr b, snd (run_test env ''Store Data'' (test_store_data env) s))
      \<and> test_results (snd (run_test env ''Store Data'' (test_store_data env) s)) = test_results s @ [r] \<and> name r = ''Store Data''"
    using run_test_one[OF keep_store roe_store[OF h], where env=env and nm="''Store Data''"]
    by (simp add: prod_eq_iff) blast
  have three: "\<And>s. \<exists>b r. run_test env ''Invalid AUID'' (test_invalid_auid env) s = (Inr b, snd (run_test env ''Invalid AUID'' (test_invalid_auid env) s))
      \<and> test_results (snd (run_test env ''Invalid AUID'' (test_invalid_auid env) s)) = test_results s @ [r] \<and> name r = ''Invalid AUID''"
    using run_test_one[OF keep_invalid roe_invalid[OF h], where env=env and nm="''Invalid AUID''"]
    by (simp add: prod_eq_iff) blast
  obtain b1 r1 s1 where 1: "run_test env ''Elasticsearch Connection'' (test_elasticsearch_connection env) s = (Inr b1, s1)"
    "test_results s1 = test_results s @ [r1]" "name r1 = ''Elasticsearch Connection''"
    using one[of s] by metis
  obtain b2 r2 s2 where 2: "run_test env ''Store Data'' (test_store_data env) s1 = (Inr b2, s2)"
    "test_results s2 = test_results s1 @ [r2]" "name r2 = ''Store Data''"
    using two[of s1] by metis
  define s2' where "s2' = (if b2 then emit (Log ERROR (''Error extracting auid: name '' @ [CHR 0x27] @ ''ES_INDEX'' @ [CHR 0x27] @ '' is not defined'')) s2 else s2)"
  obtain b3 r3 s3 where 3: "run_test env ''Invalid AUID'' (test_invalid_auid env) s2' = (Inr b3, s3)"
    "test_results s3 = test_results s2' @ [r3]" "name r3 = ''Invalid AUID''"
    using three[of s2'] by metis
  have "test_results s2' = test_results s2" by (simp add: s2'_def)
  moreover have "run_probes env s = (Inr (), s3)"
    by (simp only: run_probes_eq 1(1) 2(1) prod.case sum.case s2'_def[symmetric] 3(1))
  ultimately show ?thesis using 1 2 3 by simp
qed



subsection \<open>The readiness loop of the verifier\<close>

lemma requests_to_simps [simp]:
  "requests_to u [] = 0"
  "requests_to u (e # evs) = (if e = HttpGet u [] then 1 else 0) + requests_to u evs"
  "requests_to u (evs @ evs') = requests_to u evs + requests_to u evs'"
  by (simp_all add: requests_to_def)

lemma requests_le_gets: "requests_to u evs \<le> length (filter is_HttpGet evs)"
  by (induction evs) auto



lemma start_es_server_loop_Suc:
  "start_es_server_loop env (Suc n) s =
     (case try_except (start_es_server_attempt env)
            (\<lambda>e. if is_ConnectionError e then ret False else reraise e) s of
        (Inl e, s1) \<Rightarrow> (Inl e, s1)
      | (Inr True, s1) \<Rightarrow> (Inr True, s1)
      | (Inr False, s1) \<Rightarrow> start_es_server_loop env n (emit (Sleep 1) s1))"
  by (simp add: seq_def ret_def time_sleep_def split: prod.splits sum.splits)


lemma not_yet_get:
  assumes "not_yet (http env (tick s) url ps)"
  shows "(\<exists>e. is_ConnectionError e \<and> requests_get env url ps s = (Inl e, emit (HttpGet url ps) s))
     \<or> (\<exists>r. status_code r \<noteq> 200 \<and> requests_get env url ps s = (Inr r, emit (HttpGet url ps) s))"
  using assms
  by (cases "http env (tick s) url ps") (simp_all add: requests_get_def not_yet_def)


lemma tick_emit [simp]: "tick (emit e s) = Suc (tick s)"
  by (simp add: tick_def emit_def)

lemma attempt_not_yet:
  assumes "not_yet (http env (tick s) (''http://localhost:'' @ str_nat ES_SERVER_PORT) [])"
  shows "try_except (start_es_server_attempt env)
     (\<lambda>e. if is_ConnectionError e then ret False else reraise e) s =
   (Inr False, emit (HttpGet (''http://localhost:'' @ str_nat ES_SERVER_PORT) []) s)"
  using not_yet_get[OF assms]
proof (elim disjE exE conjE)
  fix e
  assume e: "is_ConnectionError e"
    and g: "requests_get env (''http://localhost:'' @ str_nat ES_SERVER_PORT) [] s =
      (Inl e, emit (HttpGet (''http://localhost:'' @ str_nat ES_SERVER_PORT) []) s)"
  have k: "\<not> is_Killed e" using e killed_excl(2) by blast
  have "start_es_server_attempt env s =
      (Inl e, emit (HttpGet (''http://localhost:'' @ str_nat ES_SERVER_PORT) []) s)"
    unfolding start_es_server_attempt_def using g by (simp add: seq_def)
  then show ?thesis using e k by (simp add: try_except_def ret_def)
next
  fix r
  assume r: "status_code r \<noteq> 200"
    and g: "requests_get env (''http://localhost:'' @ str_nat ES_SERVER_PORT) [] s =
      (Inr r, emit (HttpGet (''http://localhost:'' @ str_nat ES_SERVER_PORT) []) s)"
  have "start_es_server_attempt env s =
      (Inr False, emit (HttpGet (''http://localhost:'' @ str_nat ES_SERVER_PORT) []) s)"
    unfolding start_es_server_attempt_def using r g by (simp add: seq_def ret_def)
  then show ?thesis by (simp add: try_except_def)
qed




lemma never_ready_both:
  "never_ready env (''http://localhost:'' @ str_nat ES_SERVER_PORT) \<Longrightarrow> never_both_ready env"
  by (simp add: never_ready_def never_both_ready_def)

lemma never_ready_loop:
  "never_ready env (''http://localhost:'' @ str_nat ES_SERVER_PORT) \<Longrightarrow>
   start_es_server_loop env n s =
     (Inr False, s\<lparr>trace := trace s @ concat (replicate n
        [HttpGet (''http://localhost:'' @ str_nat ES_SERVER_PORT) [], Sleep 1])\<rparr>)"
proof (induction n arbitrary: s)
  case 0
  show ?case by (simp add: ret_def)
next
  case (Suc n)
  have a: "\<And>s. not_yet (http env (tick s) (''http://localhost:'' @ str_nat ES_SERVER_PORT) [])"
    using Suc.prems by (simp add: never_ready_def)
  show ?case
    by (simp add: start_es_server_loop_Suc attempt_not_yet[OF a] Suc.IH[OF Suc.prems]
        emit_def del: start_es_server_loop.simps)
qed


lemma count_replicate_gets:
  "length (filter is_HttpGet (concat (replicate n [HttpGet u p, Sleep k]))) = n"
  "filter is_Sleep (concat (replicate n [HttpGet u p, Sleep k])) = replicate n (Sleep k)"
  "length (filter is_HttpGet (concat (replicate n [HttpGet u p, HttpGet u' p', Sleep k]))) = 2 * n"
  "filter is_Sleep (concat (replicate n [HttpGet u p, HttpGet u' p', Sleep k])) = replicate n (Sleep k)"
  by (induction n) simp_all

lemma start_es_server_launched:
  assumes "spawn env (tick s) [sys_executable env, ES_SERVER_SCRIPT] = Inr p"
  shows "start_es_server env s =
     (case start_es_server_loop env 30 (launched env p s) of
        (Inl e, s2) \<Rightarrow> (Inl e, s2)
      | (Inr True, s2) \<Rightarrow> (Inr True, s2)
      | (Inr False, s2) \<Rightarrow>
          (Inr False, emit (Log ERROR ''Failed to start Elasticsearch or FastAPI server'') s2))"
  using assms
  by (simp add: start_es_server_def seq_def ret_def subprocess_Popen_def launched_def
      logger_error_def split: prod.splits sum.splits del: start_es_server_loop.simps)

lemma trace_launched:
  "trace (launched env p s) = trace s @ [Popen [sys_executable env, ES_SERVER_SCRIPT]]"
  by (simp add: launched_def emit_def)



lemma start_es_server_never_ready:
  assumes nr: "never_ready env (''http://localhost:'' @ str_nat ES_SERVER_PORT)"
    and sp: "spawn env (tick s) [sys_executable env, ES_SERVER_SCRIPT] = Inr p"
  shows "start_es_server env s =
    (Inr False, (launched env p s)\<lparr>trace := trace s @ Popen [sys_executable env, ES_SERVER_SCRIPT]
        # concat (replicate 30 [HttpGet (''http://localhost:'' @ str_nat ES_SERVER_PORT) [], Sleep 1])
        @ [Log ERROR ''Failed to start Elasticsearch or FastAPI server'']\<rparr>)"
  by (simp add: start_es_server_launched[OF sp] never_ready_loop[OF nr] emit_def trace_launched
      del: start_es_server_loop.simps)



subsection \<open>Stopping the launched process\<close>


















subsection \<open>The readiness loops of the bootstrap\<close>

lemma probe_200_events:
  "\<exists>evs. trace (snd (probe_200 env url msg s)) = trace s @ evs
     \<and> filter is_Sleep evs = [] \<and> filter is_HttpGet evs = [HttpGet url []]
     \<and> length evs \<le> 2 \<and> (fst (probe_200 env url msg s) = Inr False \<longrightarrow> length evs \<le> 1)
     \<and> (\<forall>args. Popen args \<notin> set evs)"
  by (simp add: probe_200_def py_defs effect_defs split: sum.splits)

lemma wait_until_200_Suc:
  "wait_until_200 env url msg (Suc n) s =
     (case probe_200 env url msg s of
        (Inl e, s1) \<Rightarrow> (Inl e, s1)
      | (Inr True, s1) \<Rightarrow> (Inr True, s1)
      | (Inr False, s1) \<Rightarrow> wait_until_200 env url msg n (emit (Sleep 1) s1))"
  by (simp add: seq_def ret_def time_sleep_def split: prod.splits sum.splits)

text \<open>The loop with \<open>n\<close> attempts left: every attempt is one request to \<open>url\<close>; \<open>k\<close>
  attempts fail and are followed by a sleep of one second each; the loop runs out
  exactly when all \<open>n\<close> have failed.\<close>

lemma wait_until_200_bounds:
  "\<exists>evs k j. trace (snd (wait_until_200 env url msg n s)) = trace s @ evs
     \<and> filter is_Sleep evs = replicate k (Sleep 1) \<and> k \<le> n
     \<and> filter is_HttpGet evs = replicate j (HttpGet url [])
     \<and> k \<le> j \<and> j \<le> Suc k \<and> j \<le> n
     \<and> length evs \<le> 2 * n
     \<and> (\<forall>args. Popen args \<notin> set evs)
     \<and> (fst (wait_until_200 env url msg n s) = Inr False) = (k = n)"
proof (induction n arbitrary: s)
  case 0
  show ?case by (simp add: ret_def)
next
  case (Suc n)
  obtain r s1 where A: "probe_200 env url msg s = (r, s1)" by (cases "probe_200 env url msg s")
  obtain evs where evs: "trace s1 = trace s @ evs" "filter is_Sleep evs = []"
      "filter is_HttpGet evs = [HttpGet url []]" "length evs \<le> 2"
      "r = Inr False \<longrightarrow> length evs \<le> 1" "\<forall>args. Popen args \<notin> set evs"
    using probe_200_events[of env url msg s] A by auto
  show ?case
  proof (cases "r = Inr False")
    case False
    then have eq: "wait_until_200 env url msg (Suc n) s = (r, s1)"
      using A by (cases r) (auto simp: wait_until_200_Suc simp del: wait_until_200.simps)
    show ?thesis
      apply (rule exI[of _ evs], rule exI[of _ 0], rule exI[of _ 1])
      using evs False by (simp add: eq del: wait_until_200.simps)
  next
    case True
    obtain evs' k j where evs':
       "trace (snd (wait_until_200 env url msg n (emit (Sleep 1) s1))) = trace (emit (Sleep 1) s1) @ evs'"
       "filter is_Sleep evs' = replicate k (Sleep 1)" "k \<le> n"
       "filter is_HttpGet evs' = replicate j (HttpGet url [])"
       "k \<le> j" "j \<le> Suc k" "j \<le> n"
       "length evs' \<le> 2 * n" "\<forall>args. Popen args \<notin> set evs'"
       "(fst (wait_until_200 env url msg n (emit (Sleep 1) s1)) = Inr False) = (k = n)"
      using Suc.IH[of "emit (Sleep 1) s1"] by blast
    have eq: "wait_until_200 env url msg (Suc n) s = wait_until_200 env url msg n (emit (Sleep 1) s1)"
      using A True by (simp add: wait_until_200_Suc del: wait_until_200.simps)
    have tr: "trace (snd (wait_until_200 env url msg (Suc n) s)) = trace s @ (evs @ [Sleep 1] @ evs')"
      using evs'(1) evs(1) by (simp add: eq emit_def del: wait_until_200.simps)
    show ?thesis
      apply (rule exI[of _ "evs @ [Sleep 1] @ evs'"], rule exI[of _ "Suc k"], rule exI[of _ "Suc j"])
      using tr evs evs' True by (simp add: eq del: wait_until_200.simps)
  qed
qed

lemma not_yet_probe_200:
  assumes "not_yet (http env (tick s) url [])"
  shows "probe_200 env url msg s = (Inr False, emit (HttpGet url []) s)"
  using not_yet_get[OF assms]
  by (auto simp: probe_200_def seq_def try_except_def ret_def dest: killed_excl)

lemma never_ready_wait:
  "never_ready env url \<Longrightarrow>
   wait_until_200 env url msg n s =
     (Inr False, s\<lparr>trace := trace s @ concat (replicate n [HttpGet url [], Sleep 1])\<rparr>)"
proof (induction n arbitrary: s)
  case 0
  show ?case by (simp add: ret_def)
next
  case (Suc n)
  have a: "\<And>s. not_yet (http env (tick s) url [])"
    using Suc.prems by (simp add: never_ready_def)
  show ?case
    by (simp add: wait_until_200_Suc not_yet_probe_200[OF a] Suc.IH[OF Suc.prems]
        emit_def del: wait_until_200.simps)
qed

lemma never_ready_probe_200:
  "never_ready env url \<Longrightarrow> probe_200 env url msg s = (Inr False, emit (HttpGet url []) s)"
  by (rule not_yet_probe_200) (simp add: never_ready_def)

lemma start_elasticsearch_never_ready:
  assumes nr: "never_ready env (''http://localhost:'' @ str_nat ES_PORT)"
    and ex: "path_exists env (tick s) ES_DIR"
    and sp: "spawn env (tick s + 3) [ES_DIR @ ''/bin/elasticsearch''] = Inr p"
  shows "fst (start_elasticsearch env s) = Inl (Raised RuntimeError ''Elasticsearch server failed to start'')"
    and "length (filter is_HttpGet (new_events s (snd (start_elasticsearch env s)))) = 31"
    and "filter is_Sleep (new_events s (snd (start_elasticsearch env s))) = replicate 30 (Sleep 1)"
proof -
  define url where "url = ''http://localhost:'' @ str_nat ES_PORT"
  have nr': "never_ready env url" using nr by (simp only: url_def)
  have se: "start_elasticsearch env =
     seq (os_path_exists env ES_DIR) (\<lambda>present.
     seq (if \<not> present then download_elasticsearch env else ret ()) (\<lambda>u.
     seq (probe_200 env url ''Elasticsearch is already running'') (\<lambda>running.
       if running then ret ()
       else
         seq (logger_info ''Starting Elasticsearch server...'') (\<lambda>u.
         seq (subprocess_Popen env [ES_DIR @ ''/bin/elasticsearch'']) (\<lambda>p.
         seq (wait_until_200 env url ''Elasticsearch server started successfully'' 30) (\<lambda>returned.
           if returned then ret ()
           else
             seq (logger_error ''Failed to start Elasticsearch server'') (\<lambda>u.
             raise RuntimeError ''Elasticsearch server failed to start'')))))))"
    by (simp only: start_elasticsearch_def url_def)
  show "fst (start_elasticsearch env s) = Inl (Raised RuntimeError ''Elasticsearch server failed to start'')"
    and "length (filter is_HttpGet (new_events s (snd (start_elasticsearch env s)))) = 31"
    and "filter is_Sleep (new_events s (snd (start_elasticsearch env s))) = replicate 30 (Sleep 1)"
    using ex sp unfolding se
    by (simp_all add: seq_def ret_def raise_def os_path_exists_def
        never_ready_probe_200[OF nr'] never_ready_wait[OF nr'] logger_info_def logger_error_def
        subprocess_Popen_def emit_def tick_def new_events_def count_replicate_gets numeral_3_eq_3
        del: wait_until_200.simps)
qed

subsection \<open>What the start of Elasticsearch leaves alone\<close>

lemma kibana_path: "[ES_DIR @ ''/bin/elasticsearch''] \<noteq> [KIBANA_DIR @ ''/bin/kibana'']"
  by (simp add: ES_DIR_def KIBANA_DIR_def)

lemma no_popen_emits:
  "preserves (\<lambda>s. Popen a \<notin> set (trace s)) (requests_get env url ps)"
  "preserves (\<lambda>s. Popen a \<notin> set (trace s)) (time_sleep n)"
  "preserves (\<lambda>s. Popen a \<notin> set (trace s)) (logger_info msg)"
  "preserves (\<lambda>s. Popen a \<notin> set (trace s)) (logger_error msg)"
  "preserves (\<lambda>s. Popen a \<notin> set (trace s)) (os_path_exists env d)"
  "preserves (\<lambda>s. Popen a \<notin> set (trace s)) (subprocess_run env args)"
  "args \<noteq> a \<Longrightarrow> preserves (\<lambda>s. Popen a \<notin> set (trace s)) (subprocess_Popen env args)"
  by (simp_all add: preserves_def requests_get_def time_sleep_def logger_info_def
      logger_error_def os_path_exists_def subprocess_run_def subprocess_Popen_def emit_def
      raise_def ret_def split: sum.splits option.splits)

lemma no_popen_probe_200: "preserves (\<lambda>s. Popen a \<notin> set (trace s)) (probe_200 env url msg)"
  unfolding probe_200_def by (intro preserves_intros no_popen_emits)

lemma no_popen_wait: "preserves (\<lambda>s. Popen a \<notin> set (trace s)) (wait_until_200 env url msg n)"
proof -
  have "Popen a \<notin> set (trace (snd (wait_until_200 env url msg n s)))" if "Popen a \<notin> set (trace s)" for s
    using wait_until_200_bounds[of env url msg n s] that by auto
  then show ?thesis by (simp add: preserves_def)
qed

lemma no_popen_download:
  "preserves (\<lambda>s. Popen a \<notin> set (trace s)) (download_elasticsearch env)"
  unfolding download_elasticsearch_def by (intro preserves_intros no_popen_emits)

lemma no_kibana_start_elasticsearch:
  "preserves (\<lambda>s. Popen [KIBANA_DIR @ ''/bin/kibana''] \<notin> set (trace s)) (start_elasticsearch env)"
  unfolding start_elasticsearch_def
  by (intro preserves_intros no_popen_emits no_popen_probe_200 no_popen_wait no_popen_download
      kibana_path)

lemma startup_event_halts:
  "fst (start_elasticsearch env s) = Inl e \<Longrightarrow> startup_event env s = start_elasticsearch env s"
  by (cases "start_elasticsearch env s") (simp add: startup_event_def seq_def)

lemma env_down_not_yet: "not_yet (http env_down t url ps)"
  by (simp add: not_yet_def env_down_def)

lemma env_down_never_ready: "never_ready env_down url"
  by (simp add: never_ready_def env_down_not_yet)

lemma env_down_spawn:
  "spawn env_down t args = Inr 4242" "path_exists env_down t p"
  "sys_executable env_down = ''/usr/bin/python3''" "own_pgid env_down = 4000"
  by (simp_all add: env_down_def scenario_env_def)

lemma env_down_start:
  "fst (start_elasticsearch env_down s_init) =
     Inl (Raised RuntimeError ''Elasticsearch server failed to start'')"
  by (rule start_elasticsearch_never_ready(1)[OF env_down_never_ready, where p=4242])
     (simp_all add: env_down_spawn)


subsection \<open>The report\<close>

lemma truediv_nonzero: "b \<noteq> 0 \<Longrightarrow> truediv a b = Inr (of_int a / of_int b)"
  by (simp add: truediv_def)

lemma summary_empty:
  "summary_statistics [] =
     Inr \<lparr>total_tests = 0, passed_tests = 0, failed_tests = 0, success_rate = 0\<rparr>"
  by (simp add: summary_statistics_def)

lemma summary_nonempty:
  "results \<noteq> [] \<Longrightarrow> summary_statistics results =
     Inr \<lparr>total_tests = int (length results),
          passed_tests = int (length (filter success results)),
          failed_tests = int (length results) - int (length (filter success results)),
          success_rate = of_int (int (length (filter success results)))
                           / of_int (int (length results)) * 100\<rparr>"
  by (simp add: summary_statistics_def Let_def truediv_def)

lemma summary_total: "\<exists>st. summary_statistics results = Inr st"
  by (cases "results = []") (simp_all add: summary_empty summary_nonempty)

lemma generate_html_report_eq:
  assumes "fs_error env (tick s) REPORT_DIR = None"
    and "fs_error env (Suc (Suc (tick s))) REPORT_FILE = None"
    and "summary_statistics (test_results s) = Inr st"
  shows "generate_html_report env s =
     (Inr REPORT_FILE,
      s\<lparr>trace := trace s @
           [Makedirs REPORT_DIR, DatetimeNow,
            WriteFile REPORT_FILE (html_content env (now_str env (Suc (tick s))) st (test_results s)),
            Log INFO (''HTML report generated: '' @ REPORT_FILE)],
        files := (files s)(REPORT_FILE \<mapsto>
            html_content env (now_str env (Suc (tick s))) st (test_results s))\<rparr>)"
  using assms
  by (simp add: generate_html_report_def py_defs effect_defs os_makedirs_def write_file_def)

lemma generate_html_report_fs_only:
  assumes "fst (generate_html_report env s) = Inl e"
  shows "fs_error env (tick s) REPORT_DIR = Some e
       \<or> fs_error env (Suc (Suc (tick s))) REPORT_FILE = Some e"
proof -
  obtain st where st: "summary_statistics (test_results s) = Inr st"
    using summary_total by blast
  show ?thesis
    using assms st
    by (simp add: generate_html_report_def py_defs effect_defs os_makedirs_def write_file_def
        split: option.splits)
qed

lemma html_content_inj:
  "(html_content env g1 st results = html_content env g2 st results) = (g1 = g2)"
  by (simp add: html_content_def html_head_def)


subsection \<open>Running the scenarios\<close>

lemma serve_forever_step:
  "0 < n \<Longrightarrow> serve_forever env n s =
     seq (time_sleep 1) (\<lambda>u.
     seq (try_except
            (seq (get_report env) (\<lambda>body. (\<lambda>s. (Inr (), emit (Respond 200 body) s))))
            (\<lambda>e. (\<lambda>s. (Inr (), emit (Respond 500 ''Internal Server Error'') s)))) (\<lambda>u.
       serve_forever env (n - 1))) s"
  by (cases n) (auto cong: if_cong)

lemma start_es_server_loop_step:
  "0 < n \<Longrightarrow> start_es_server_loop env n s =
     seq (try_except (start_es_server_attempt env)
            (\<lambda>e. if is_ConnectionError e then ret False else reraise e))
       (\<lambda>returned.
          if returned then ret True
          else seq (time_sleep 1) (\<lambda>u. start_es_server_loop env (n - 1))) s"
  by (cases n) (auto cong: if_cong)

lemmas run_defs = run_verification_def run_verification_try_def run_probes_def run_test_def
     test_elasticsearch_connection_def test_store_data_def test_invalid_auid_def extract_auid_eq
     generate_html_report_def os_makedirs_def write_file_def summary_statistics_def truediv_def
     get_report_def read_file_def
     generate_random_string_def getitem_def response_json_def stop_es_server_def os_getpgid_def
     os_killpg_def popen_wait_def deliver_def
     start_es_server_def start_es_server_loop_step serve_forever_step
     start_es_server_attempt_def py_defs effect_defs
     subprocess_Popen_def str_nat_ports json_response_def

lemma scenario_start:
  "start_es_server scenario_env w_init =
     (Inr True,
      \<lparr>trace = [Popen [''/usr/bin/python3'', ES_SERVER_SCRIPT],
                HttpGet ''http://localhost:9200'' [], HttpGet ''http://localhost:8000/docs'' [],
                Log INFO ''Elasticsearch and FastAPI servers started successfully''],
       proc_table = [(4242, \<lparr>pgid = 4000, status = Running\<rparr>)],
       es_server_process = Some \<lparr>popen_args = [''/usr/bin/python3'', ES_SERVER_SCRIPT],
                                 pid = 4242, returncode = None\<rparr>,
       test_results = [], report_generated = False, files = Map.empty\<rparr>)"
  by (simp add: run_defs scenario_env_def scenario_http_def w_init_def)







lemma env_down_never_both_ready: "never_both_ready env_down"
  by (simp add: never_both_ready_def env_down_not_yet)

lemma env_store_down_http: "http_raises_only_Exception env_store_down"
  by (simp add: http_raises_only_Exception_def env_store_down_def scenario_env_def
      scenario_http_def)

lemma scenario_fs:
  "fs_error scenario_env t p = None" "now_str scenario_env = scenario_now"
  by (simp_all add: scenario_env_def)



lemma scenario_generate_empty:
  "fs_error scenario_env (tick w_init) REPORT_DIR = None"
  "fs_error scenario_env (Suc (Suc (tick w_init))) REPORT_FILE = None"
  "test_results w_init = []"
  by (simp_all add: scenario_fs w_init_def)

section \<open>The claims\<close>

text \<open>
  C1. In the scenario where every probe's operation succeeds (connectivity, a write
  returning the identifier \<open>X\<close>, a read of a stored identifier finding one record, the
  negative lookup finding none), the claimed run records four results, all passed, and
  reports 4 tests, 4 passed, rate 100.0. The run records three: the lookup of the stored
  document between the write and the read names the undefined \<^verbatim>\<open>ES_INDEX\<close>, the
  \<^verbatim>\<open>NameError\<close> is logged, and the read probe is never run, although it would succeed.
\<close>

theorem scenario_run_records_three_results:
  "map (\<lambda>r. (name r, success r))
       (test_results (snd (run_verification scenario_env 0 w_init))) =
     [(''Elasticsearch Connection'', True), (''Store Data'', True), (''Invalid AUID'', True)]
   \<and> summary_statistics (test_results (snd (run_verification scenario_env 0 w_init))) =
       Inr \<lparr>total_tests = 3, passed_tests = 3, failed_tests = 0, success_rate = 100\<rparr>
   \<and> fst (test_get_data scenario_env (JStr ''test_aaaaa'') w_init) =
       Inr (JArr [JObj [(''document_id'', JStr ''X'')]])"
proof (intro conjI)
  show "map (\<lambda>r. (name r, success r))
       (test_results (snd (run_verification scenario_env 0 w_init))) =
     [(''Elasticsearch Connection'', True), (''Store Data'', True), (''Invalid AUID'', True)]"
    by (simp add: run_defs scenario_env_def scenario_http_def w_init_def)
  show "summary_statistics (test_results (snd (run_verification scenario_env 0 w_init))) =
       Inr \<lparr>total_tests = 3, passed_tests = 3, failed_tests = 0, success_rate = 100\<rparr>"
    by (simp add: run_defs scenario_env_def scenario_http_def w_init_def)
  show "fst (test_get_data scenario_env (JStr ''test_aaaaa'') w_init) =
       Inr (JArr [JObj [(''document_id'', JStr ''X'')]])"
    by (simp add: test_get_data_def run_defs scenario_env_def scenario_http_def w_init_def)
qed

text \<open>
  C2. When the start of Elasticsearch fails, in particular when Elasticsearch does not
  become ready within its 30 polls and \<^verbatim>\<open>start_elasticsearch\<close> raises, \<^verbatim>\<open>startup_event\<close>
  ends there with that exception: the index is not set up and Kibana is never launched.
\<close>

theorem kibana_never_started_after_elasticsearch_failure:
  assumes "fst (start_elasticsearch env s) = Inl e"
    and "Popen [KIBANA_DIR @ ''/bin/kibana''] \<notin> set (trace s)"
  shows "startup_event env s = start_elasticsearch env s
    \<and> Popen [KIBANA_DIR @ ''/bin/kibana''] \<notin> set (trace (snd (startup_event env s)))"
proof -
  have "startup_event env s = start_elasticsearch env s"
    using assms(1) by (rule startup_event_halts)
  moreover have "Popen [KIBANA_DIR @ ''/bin/kibana''] \<notin> set (trace (snd (start_elasticsearch env s)))"
    using no_kibana_start_elasticsearch[of env] assms(2) by (simp add: preserves_def)
  ultimately show ?thesis by simp
qed

theorem kibana_never_started_after_elasticsearch_failure_witness:
  "fst (start_elasticsearch env_down s_init) =
     Inl (Raised RuntimeError ''Elasticsearch server failed to start'')
   \<and> Popen [KIBANA_DIR @ ''/bin/kibana''] \<notin> set (trace s_init)
   \<and> startup_event env_down s_init = start_elasticsearch env_down s_init
   \<and> Popen [KIBANA_DIR @ ''/bin/kibana''] \<notin> set (trace (snd (startup_event env_down s_init)))"
proof -
  have h: "Popen [KIBANA_DIR @ ''/bin/kibana''] \<notin> set (trace s_init)"
    by (simp add: s_init_def)
  from kibana_never_started_after_elasticsearch_failure[OF env_down_start h] env_down_start h
  show ?thesis by blast
qed

text \<open>
  C3, as stated: the runner records every failing probe and goes on, and a dependent
  probe whose prerequisite gave no usable output is itself run and recorded as failed.
  The second half fails: when the store endpoint answers 500, the Store Data probe is
  recorded as failed and the Get Data probe is skipped, with no result of its own.
\<close>

theorem read_probe_skipped_when_store_fails:
  "map (\<lambda>r. (name r, success r))
       (test_results (snd (run_verification env_store_down 0 w_init))) =
     [(''Elasticsearch Connection'', True), (''Store Data'', False), (''Invalid AUID'', True)]"
  by (simp add: run_defs env_store_down_def scenario_env_def scenario_http_def w_init_def)

text \<open>
  C3, amended: for every probe that raises only subclasses of \<^verbatim>\<open>Exception\<close>, \<^verbatim>\<open>run_test\<close>
  invokes it, catches what it raises, appends exactly one result with the probe's name
  and its success or failure, and returns that flag. The run goes on to the next probe:
  it records Elasticsearch Connection and Store Data first and Invalid AUID last. A
  dependent probe is guarded, not run: when Store Data failed, Get Data is skipped and
  exactly the three results are recorded.
\<close>

theorem probe_failure_recorded_and_run_continues:
  assumes "http_raises_only_Exception env" and "raises_only_Exception f"
  shows "(\<exists>r. fst (run_test env nm f s) = Inr (\<not> isl (fst (f (snd (time_time env s)))))
            \<and> test_results (snd (run_test env nm f s)) =
                test_results (snd (f (snd (time_time env s)))) @ [r]
            \<and> name r = nm \<and> success r = (\<not> isl (fst (f (snd (time_time env s))))))
       \<and> (\<exists>rs. fst (run_probes env s) = Inr ()
            \<and> test_results (snd (run_probes env s)) = test_results s @ rs
            \<and> take 2 (map name rs) = [''Elasticsearch Connection'', ''Store Data'']
            \<and> last (map name rs) = ''Invalid AUID''
            \<and> (\<not> success (rs ! 1) \<longrightarrow>
                 map name rs = [''Elasticsearch Connection'', ''Store Data'', ''Invalid AUID'']))"
proof (rule conjI)
  show "\<exists>r. fst (run_test env nm f s) = Inr (\<not> isl (fst (f (snd (time_time env s)))))
            \<and> test_results (snd (run_test env nm f s)) =
                test_results (snd (f (snd (time_time env s)))) @ [r]
            \<and> name r = nm \<and> success r = (\<not> isl (fst (f (snd (time_time env s)))))"
  proof (cases "fst (f (snd (time_time env s)))")
    case (Inl e)
    then have "is_Exception e" using assms(2) by (auto simp: raises_only_Exception_def)
    with Inl show ?thesis by (simp add: run_test_outcome run_test_results)
  next
    case (Inr v)
    then show ?thesis by (simp add: run_test_outcome run_test_results)
  qed
next
  obtain r1 r2 r3 where "fst (run_probes env s) = Inr ()"
    "test_results (snd (run_probes env s)) = test_results s @ [r1, r2, r3]"
    "name r1 = ''Elasticsearch Connection''" "name r2 = ''Store Data''" "name r3 = ''Invalid AUID''"
    using run_probes_shape[OF assms(1), of s] by blast
  then show "\<exists>rs. fst (run_probes env s) = Inr ()
            \<and> test_results (snd (run_probes env s)) = test_results s @ rs
            \<and> take 2 (map name rs) = [''Elasticsearch Connection'', ''Store Data'']
            \<and> last (map name rs) = ''Invalid AUID''
            \<and> (\<not> success (rs ! 1) \<longrightarrow>
                 map name rs = [''Elasticsearch Connection'', ''Store Data'', ''Invalid AUID''])"
    by (intro exI[of _ "[r1, r2, r3]"]) simp
qed

theorem probe_failure_recorded_and_run_continues_witness:
  "fst (run_test env_store_down ''Store Data'' (test_store_data env_store_down) w_init) = Inr False
   \<and> (\<exists>rs. fst (run_probes env_store_down w_init) = Inr ()
         \<and> test_results (snd (run_probes env_store_down w_init)) = test_results w_init @ rs
         \<and> take 2 (map name rs) = [''Elasticsearch Connection'', ''Store Data'']
         \<and> last (map name rs) = ''Invalid AUID''
         \<and> \<not> success (rs ! 1)
         \<and> map name rs = [''Elasticsearch Connection'', ''Store Data'', ''Invalid AUID''])"
proof -
  note h1 = env_store_down_http
  note h2 = roe_store[OF env_store_down_http]
  have failed: "isl (fst (test_store_data env_store_down (snd (time_time env_store_down w_init))))"
    by (simp add: run_defs env_store_down_def scenario_env_def w_init_def)
  have flags: "map success (test_results (snd (run_probes env_store_down w_init))) =
      [True, False, True]"
    by (simp add: run_defs env_store_down_def scenario_env_def scenario_http_def w_init_def)
  note main = probe_failure_recorded_and_run_continues[OF h1 h2, of "''Store Data''" w_init]
  from main have "\<exists>r. fst (run_test env_store_down ''Store Data'' (test_store_data env_store_down) w_init) =
        Inr (\<not> isl (fst (test_store_data env_store_down (snd (time_time env_store_down w_init)))))
      \<and> test_results (snd (run_test env_store_down ''Store Data'' (test_store_data env_store_down) w_init)) =
          test_results (snd (test_store_data env_store_down (snd (time_time env_store_down w_init)))) @ [r]
      \<and> name r = ''Store Data''
      \<and> success r = (\<not> isl (fst (test_store_data env_store_down (snd (time_time env_store_down w_init)))))"
    by (rule conjunct1)
  then have one: "fst (run_test env_store_down ''Store Data'' (test_store_data env_store_down) w_init) = Inr False"
    using failed by (elim exE conjE) (simp only: not_True_eq_False simp_thms)
  from main have "\<exists>rs. fst (run_probes env_store_down w_init) = Inr ()
            \<and> test_results (snd (run_probes env_store_down w_init)) = test_results w_init @ rs
            \<and> take 2 (map name rs) = [''Elasticsearch Connection'', ''Store Data'']
            \<and> last (map name rs) = ''Invalid AUID''
            \<and> (\<not> success (rs ! 1) \<longrightarrow>
                 map name rs = [''Elasticsearch Connection'', ''Store Data'', ''Invalid AUID''])"
    by (rule conjunct2)
  then obtain rs where rs: "fst (run_probes env_store_down w_init) = Inr ()"
      "test_results (snd (run_probes env_store_down w_init)) = test_results w_init @ rs"
      "take 2 (map name rs) = [''Elasticsearch Connection'', ''Store Data'']"
      "last (map name rs) = ''Invalid AUID''"
      "\<not> success (rs ! 1) \<longrightarrow>
         map name rs = [''Elasticsearch Connection'', ''Store Data'', ''Invalid AUID'']"
    by (elim exE conjE)
  have "test_results w_init = []" by (simp add: w_init_def)
  with flags rs(2) have "map success rs = [True, False, True]" by simp
  then have f: "\<not> success (rs ! 1)" by (auto simp: map_eq_Cons_conv)
  with rs(5) have "map name rs = [''Elasticsearch Connection'', ''Store Data'', ''Invalid AUID'']"
    by (rule_tac mp)
  with one rs(1-4) f show ?thesis by (intro conjI exI[of _ rs])
qed




text \<open>
  C5. Within one run the report is claimed to be generated at most once for one set of
  results, every later request returning the cached artifact. In the scenario, with two
  visits of the report endpoint, the report is written twice for the same three results:
  once by \<^verbatim>\<open>run_verification\<close>, which leaves \<^verbatim>\<open>report_generated\<close> unset, and once more by
  the first visit, whose own comment says it generates the report "if it hasn't been
  generated yet". The two artifacts differ in their generation time; both visits are
  served the second one.
\<close>

theorem report_generated_twice_in_one_run:
  "\<exists>a1 a2. filter is_report_event (trace (snd (run_verification scenario_env 2 w_init))) =
      [WriteFile REPORT_FILE a1, WriteFile REPORT_FILE a2, Respond 200 a2, Respond 200 a2]
      \<and> a1 \<noteq> a2"
  apply (simp add: run_defs scenario_env_def scenario_http_def w_init_def html_content_inj)
  apply (simp only: One_nat_def[symmetric] Suc_1 Suc_numeral semiring_norm)
  apply (simp add: scenario_now_def str_nat.simps pad_left_def digit_char_def)
  done

text \<open>
  C6. The summary of an empty sequence of results is total 0, passed 0, failed 0 and
  success rate 0; the division is guarded, so the summary of no sequence raises, and
  where the file system refuses nothing the report is built and written with that
  summary. For every non-empty sequence the success rate, which the report gives in
  percent as in the scenario of the specification (4 of 4 is 100.0), is passed divided
  by total, times 100. Python's float quotient is taken exactly.
\<close>

theorem summary_of_results:
  "summary_statistics [] =
     Inr \<lparr>total_tests = 0, passed_tests = 0, failed_tests = 0, success_rate = 0\<rparr>
   \<and> (\<exists>st. summary_statistics results = Inr st
         \<and> total_tests st = int (length results)
         \<and> passed_tests st = int (length (filter success results))
         \<and> failed_tests st = total_tests st - passed_tests st
         \<and> (results \<noteq> [] \<longrightarrow>
              success_rate st = of_int (passed_tests st) / of_int (total_tests st) * 100))
   \<and> (fs_error env (tick s) REPORT_DIR = None
        \<and> fs_error env (Suc (Suc (tick s))) REPORT_FILE = None \<longrightarrow>
      (\<exists>st. summary_statistics (test_results s) = Inr st
         \<and> fst (generate_html_report env s) = Inr REPORT_FILE
         \<and> files (snd (generate_html_report env s)) REPORT_FILE =
             Some (html_content env (now_str env (Suc (tick s))) st (test_results s))))"
proof (intro conjI impI)
  show "summary_statistics [] =
     Inr \<lparr>total_tests = 0, passed_tests = 0, failed_tests = 0, success_rate = 0\<rparr>"
    by (rule summary_empty)
  show "\<exists>st. summary_statistics results = Inr st
         \<and> total_tests st = int (length results)
         \<and> passed_tests st = int (length (filter success results))
         \<and> failed_tests st = total_tests st - passed_tests st
         \<and> (results \<noteq> [] \<longrightarrow>
              success_rate st = of_int (passed_tests st) / of_int (total_tests st) * 100)"
    by (cases "results = []") (simp_all add: summary_empty summary_nonempty)
next
  assume fs: "fs_error env (tick s) REPORT_DIR = None
        \<and> fs_error env (Suc (Suc (tick s))) REPORT_FILE = None"
  obtain st where st: "summary_statistics (test_results s) = Inr st"
    using summary_total by blast
  show "\<exists>st. summary_statistics (test_results s) = Inr st
         \<and> fst (generate_html_report env s) = Inr REPORT_FILE
         \<and> files (snd (generate_html_report env s)) REPORT_FILE =
             Some (html_content env (now_str env (Suc (tick s))) st (test_results s))"
    using fs st by (simp add: generate_html_report_eq[where st=st])
qed

theorem summary_of_results_witness:
  "[passed_result] \<noteq> []
   \<and> summary_statistics [passed_result] =
       Inr \<lparr>total_tests = 1, passed_tests = 1, failed_tests = 0, success_rate = 100\<rparr>
   \<and> fs_error scenario_env (tick w_init) REPORT_DIR = None
   \<and> fs_error scenario_env (Suc (Suc (tick w_init))) REPORT_FILE = None
   \<and> test_results w_init = []
   \<and> fst (generate_html_report scenario_env w_init) = Inr REPORT_FILE
   \<and> files (snd (generate_html_report scenario_env w_init)) REPORT_FILE =
       Some (html_content scenario_env (now_str scenario_env (Suc (tick w_init)))
          \<lparr>total_tests = 0, passed_tests = 0, failed_tests = 0, success_rate = 0\<rparr> [])"
proof -
  note main = summary_of_results[of "[passed_result]" scenario_env w_init]
  have p: "length (filter success [passed_result]) = 1" by (simp add: passed_result_def)
  from main obtain st where st: "summary_statistics [passed_result] = Inr st"
      "total_tests st = int (length [passed_result])"
      "passed_tests st = int (length (filter success [passed_result]))"
      "failed_tests st = total_tests st - passed_tests st"
      "[passed_result] \<noteq> [] \<longrightarrow>
         success_rate st = of_int (passed_tests st) / of_int (total_tests st) * 100"
    by blast
  then have "st = \<lparr>total_tests = 1, passed_tests = 1, failed_tests = 0, success_rate = 100\<rparr>"
    using p by (cases st) simp
  with st(1) have 1: "summary_statistics [passed_result] =
       Inr \<lparr>total_tests = 1, passed_tests = 1, failed_tests = 0, success_rate = 100\<rparr>"
    by simp
  from main scenario_generate_empty(1,2)
  obtain st0 where st0: "summary_statistics (test_results w_init) = Inr st0"
      "fst (generate_html_report scenario_env w_init) = Inr REPORT_FILE"
      "files (snd (generate_html_report scenario_env w_init)) REPORT_FILE =
         Some (html_content scenario_env (now_str scenario_env (Suc (tick w_init))) st0
                 (test_results w_init))"
    by blast
  from main have "summary_statistics [] =
     Inr \<lparr>total_tests = 0, passed_tests = 0, failed_tests = 0, success_rate = 0\<rparr>"
    by (rule conjunct1)
  with st0(1) have "st0 = \<lparr>total_tests = 0, passed_tests = 0, failed_tests = 0, success_rate = 0\<rparr>"
    by (simp add: scenario_generate_empty(3))
  with st0 1 scenario_generate_empty show ?thesis by simp
qed







text \<open>
  C9, as stated: the message recorded for a failing probe is the exception's message
  truncated to a fixed bound. No bound holds: the message is recorded whole.
\<close>

theorem recorded_message_is_unbounded:
  "\<not> (\<exists>bound. \<forall>m. length (message (last (test_results
         (snd (run_test scenario_env ''probe'' (raise Exception m) w_init))))) \<le> bound)"
proof
  assume "\<exists>bound. \<forall>m. length (message (last (test_results
         (snd (run_test scenario_env ''probe'' (raise Exception m) w_init))))) \<le> bound"
  then obtain bound where b: "\<And>m. length (message (last (test_results
         (snd (run_test scenario_env ''probe'' (raise Exception m) w_init))))) \<le> bound"
    by blast
  have "length (message (last (test_results
         (snd (run_test scenario_env ''probe'' (raise Exception (replicate bound CHR ''x'')) w_init)))))
       = 13 + bound"
    by (simp add: run_test_results raise_def)
  with b[of "replicate bound CHR ''x''"] show False by simp
qed

text \<open>
  C9, amended: for every probe whose operation raises a subclass of \<^verbatim>\<open>Exception\<close>, the
  result recorded by the runner carries \<^verbatim>\<open>Test failed: \<close> followed by the whole message of
  the exception, untruncated: its length is 13 plus the length of that message.
\<close>

theorem recorded_message_is_whole:
  assumes "fst (f (snd (time_time env s))) = Inl e" and "is_Exception e"
  shows "message (last (test_results (snd (run_test env nm f s)))) = ''Test failed: '' @ str_exn e
    \<and> length (message (last (test_results (snd (run_test env nm f s))))) = 13 + length (str_exn e)"
  using assms by (simp add: run_test_results)

theorem recorded_message_is_whole_witness:
  "fst (raise Exception ''boom'' (snd (time_time scenario_env w_init))) = Inl (Raised Exception ''boom'')
   \<and> is_Exception (Raised Exception ''boom'')
   \<and> message (last (test_results (snd (run_test scenario_env ''probe'' (raise Exception ''boom'') w_init))))
       = ''Test failed: boom''"
proof -
  have h: "fst (raise Exception ''boom'' (snd (time_time scenario_env w_init))) = Inl (Raised Exception ''boom'')"
    "is_Exception (Raised Exception ''boom'')"
    by (simp_all add: raise_def)
  from recorded_message_is_whole[where f="raise Exception ''boom''" and env=scenario_env
      and s=w_init and nm="''probe''", OF h] h
  show ?thesis by simp
qed

text \<open>
  C10. For every probe that raises only subclasses of \<^verbatim>\<open>Exception\<close>, \<^verbatim>\<open>run_test\<close> appends
  one result, with the probe's name, to the results the probe left, and returns exactly
  the success flag of that result, true iff the probe raised nothing. The value the
  probe returns is dropped: a probe and the same probe with any other return value give
  the same run, so no data reaches the caller through the runner.
\<close>

theorem run_test_returns_only_the_success_flag:
  assumes "\<forall>e. fst (f (snd (time_time env s))) = Inl e \<longrightarrow> is_Exception e"
  shows "\<exists>r. test_results (snd (run_test env nm f s)) =
               test_results (snd (f (snd (time_time env s)))) @ [r]
    \<and> name r = nm
    \<and> success r = (\<not> isl (fst (f (snd (time_time env s)))))
    \<and> fst (run_test env nm f s) = Inr (success r)
    \<and> run_test env nm (seq f (\<lambda>v. ret (h v))) s = run_test env nm f s"
proof -
  have same: "run_test env nm (seq f (\<lambda>v. ret (h v))) s = run_test env nm f s"
    by (simp add: run_test_def py_defs effect_defs split: prod.splits sum.splits)
  show ?thesis
  proof (cases "fst (f (snd (time_time env s)))")
    case (Inl e)
    then have "is_Exception e" using assms by blast
    with Inl same show ?thesis by (simp add: run_test_outcome run_test_results)
  next
    case (Inr v)
    with same show ?thesis by (simp add: run_test_outcome run_test_results)
  qed
qed

theorem run_test_returns_only_the_success_flag_witness:
  "fst (test_store_data scenario_env (snd (time_time scenario_env w_init))) = Inr (JStr ''X'')
   \<and> (\<exists>r. test_results (snd (run_test scenario_env ''Store Data''
                (test_store_data scenario_env) w_init)) = [r]
         \<and> name r = ''Store Data'' \<and> success r)
   \<and> fst (run_test scenario_env ''Store Data'' (test_store_data scenario_env) w_init) = Inr True
   \<and> run_test scenario_env ''Store Data''
        (seq (test_store_data scenario_env) (\<lambda>v. ret JNull)) w_init =
      run_test scenario_env ''Store Data'' (test_store_data scenario_env) w_init"
proof -
  have v: "fst (test_store_data scenario_env (snd (time_time scenario_env w_init))) = Inr (JStr ''X'')"
    by (simp add: run_defs scenario_env_def scenario_http_def w_init_def)
  then have h: "\<forall>e. fst (test_store_data scenario_env (snd (time_time scenario_env w_init))) = Inl e
        \<longrightarrow> is_Exception e"
    by simp
  have k: "test_results (snd (test_store_data scenario_env (snd (time_time scenario_env w_init)))) = []"
    using keep_store[of "\<lambda>s. test_results s = []" scenario_env]
    by (simp add: preserves_def time_time_def w_init_def)
  from run_test_returns_only_the_success_flag[where f="test_store_data scenario_env"
      and env=scenario_env and s=w_init and nm="''Store Data''" and h="\<lambda>v. JNull", OF h]
  obtain r where r: "test_results (snd (run_test scenario_env ''Store Data''
                (test_store_data scenario_env) w_init)) =
               test_results (snd (test_store_data scenario_env (snd (time_time scenario_env w_init)))) @ [r]"
     "name r = ''Store Data''"
     "success r = (\<not> isl (fst (test_store_data scenario_env (snd (time_time scenario_env w_init)))))"
     "fst (run_test scenario_env ''Store Data'' (test_store_data scenario_env) w_init) = Inr (success r)"
     "run_test scenario_env ''Store Data''
        (seq (test_store_data scenario_env) (\<lambda>v. ret JNull)) w_init =
      run_test scenario_env ''Store Data'' (test_store_data scenario_env) w_init"
    by blast
  from r(3) v have s: "success r" by simp
  from r(1) k have "test_results (snd (run_test scenario_env ''Store Data''
                (test_store_data scenario_env) w_init)) = [r]" by simp
  with r(2) s have 1: "\<exists>r. test_results (snd (run_test scenario_env ''Store Data''
                (test_store_data scenario_env) w_init)) = [r]
         \<and> name r = ''Store Data'' \<and> success r" by blast
  from r(4) s have 2: "fst (run_test scenario_env ''Store Data'' (test_store_data scenario_env) w_init) = Inr True"
    by simp
  from v 1 2 r(5) show ?thesis by blast
qed

end
